theory Spec2Isabelle
  imports Complex_Main "HOL-Library.Sublist"
begin

section \<open>JavaScript numbers\<close>

text \<open>
  The program is TypeScript running in a browser. A JavaScript number is an IEEE 754
  binary64 value: \<open>NaN\<close>, the two infinities, negative zero, or a finite double, which
  \<open>Num x\<close> holds as the real number \<open>x\<close> it denotes (\<open>Num 0\<close> is positive zero). The
  arithmetic below rounds each result to a double, so \<open>Num x\<close> is only ever built by
  the program from a real \<open>x\<close> that is a double.
\<close>

datatype jsnum = NaN | PosInf | NegInf | NegZero | Num real

text \<open>The integer nearest to \<open>y\<close>, a tie going to the even one.\<close>

definition round_half_even :: "real \<Rightarrow> int" where
  "round_half_even y =
     (let f = \<lfloor>y\<rfloor>; d = y - of_int f
      in if d < 1 / 2 then f else if 1 / 2 < d then f + 1 else if even f then f else f + 1)"

text \<open>
  The exponent of the unit in the last place of the doubles of magnitude \<open>a\<close>: \<open>e\<close> with
  \<open>2^(e+52) \<le> a < 2^(e+53)\<close>, found by a search from the top binade down, and never
  below \<open>-1074\<close> (the subnormal doubles) nor above 971.
\<close>

fun binade_from :: "nat \<Rightarrow> real \<Rightarrow> int" where
  "binade_from 0 a = - 1074"
| "binade_from (Suc n) a =
     (if 2 powi (int n - 1021) \<le> a then int n - 1073 else binade_from n a)"

definition ulp_exponent :: "real \<Rightarrow> int" where
  "ulp_exponent x = binade_from 2045 \<bar>x\<bar>"

text \<open>
  The rounding of a real to a double, to nearest with ties to even: the magnitude is
  rounded to a multiple of the unit in the last place, a result of \<open>2^1024\<close> is an
  infinity, and a result of zero keeps the sign.
\<close>

definition to_double :: "real \<Rightarrow> jsnum" where
  "to_double x =
     (let e = ulp_exponent x;
          m = round_half_even (\<bar>x\<bar> / 2 powi e);
          y = of_int m * 2 powi e
      in if 2 powi 1024 \<le> y then (if x < 0 then NegInf else PosInf)
         else if m = 0 then (if x < 0 then NegZero else Num 0)
         else Num (if x < 0 then - y else y))"

fun js_val :: "jsnum \<Rightarrow> real" where
  "js_val (Num x) = x"
| "js_val v = 0"

fun js_finite :: "jsnum \<Rightarrow> bool" where
  "js_finite (Num x) = True"
| "js_finite NegZero = True"
| "js_finite v = False"

fun js_negative :: "jsnum \<Rightarrow> bool" where
  "js_negative NegInf = True"
| "js_negative NegZero = True"
| "js_negative (Num x) = (x < 0)"
| "js_negative v = False"

fun js_infinite :: "jsnum \<Rightarrow> bool" where
  "js_infinite PosInf = True"
| "js_infinite NegInf = True"
| "js_infinite v = False"

fun js_neg :: "jsnum \<Rightarrow> jsnum" where
  "js_neg NaN = NaN"
| "js_neg PosInf = NegInf"
| "js_neg NegInf = PosInf"
| "js_neg NegZero = Num 0"
| "js_neg (Num x) = (if x = 0 then NegZero else Num (- x))"

text \<open>
  \<open>a * b\<close>, \<open>a + b\<close> and \<open>a - b\<close> on numbers: \<open>NaN\<close> is absorbing, zero times an infinity
  and the sum of opposite infinities are \<open>NaN\<close>, a zero result has the sign the
  standard gives it, and any other result is the exact one rounded.
\<close>

definition js_mul :: "jsnum \<Rightarrow> jsnum \<Rightarrow> jsnum" where
  "js_mul a b =
     (if a = NaN \<or> b = NaN then NaN
      else if js_infinite a \<or> js_infinite b
      then (if (js_finite a \<and> js_val a = 0) \<or> (js_finite b \<and> js_val b = 0) then NaN
            else if js_negative a \<noteq> js_negative b then NegInf else PosInf)
      else if js_val a * js_val b = 0
      then (if js_negative a \<noteq> js_negative b then NegZero else Num 0)
      else to_double (js_val a * js_val b))"

definition js_add :: "jsnum \<Rightarrow> jsnum \<Rightarrow> jsnum" where
  "js_add a b =
     (if a = NaN \<or> b = NaN then NaN
      else if js_infinite a \<and> js_infinite b then (if a = b then a else NaN)
      else if js_infinite a then a
      else if js_infinite b then b
      else if js_val a + js_val b = 0
      then (if js_negative a \<and> js_negative b then NegZero else Num 0)
      else to_double (js_val a + js_val b))"

definition js_sub :: "jsnum \<Rightarrow> jsnum \<Rightarrow> jsnum" where
  "js_sub a b = js_add a (js_neg b)"

text \<open>
  \<open>Math.round(x)\<close>: the integer nearest to \<open>x\<close>, a tie going up (\<open>Math.round(2.5)\<close> is
  3 and \<open>Math.round(-2.5)\<close> is -2), negative zero for \<open>-0.5 \<le> x < 0\<close>; \<open>NaN\<close>, the
  infinities and negative zero are returned as they are.
\<close>

fun Math_round :: "jsnum \<Rightarrow> jsnum" where
  "Math_round (Num x) = (if - (1 / 2) \<le> x \<and> x < 0 then NegZero else Num (of_int \<lfloor>x + 1 / 2\<rfloor>))"
| "Math_round v = v"


text \<open>
  The value of a decimal literal of the source: \<open>dbl 0.95\<close> is the double that the
  literal \<open>0.95\<close> denotes, which is not the real number 0.95.
\<close>

definition dbl :: "real \<Rightarrow> real" where
  "dbl x = js_val (to_double x)"

section \<open>The house record\<close>

text \<open>
  \<open>HouseData\<close> of \<open>data/modelData\<close>, with the ten fields that \<open>predictPrice\<close> and
  \<open>predictPriceFromAPI\<close> read. The numeric fields are TypeScript \<open>number\<close>s; the record
  holds the finite number that a field denotes.
\<close>

record HouseData =
  squareFootage :: real
  bedrooms :: real
  bathrooms :: real
  yearBuilt :: real
  neighborhood :: string
  lotSize :: real
  garage :: real
  basement :: bool
  centralAir :: bool
  kitchenQuality :: real

section \<open>The local estimator: \<open>predictPrice\<close>\<close>

definition BASE_PRICE :: real where "BASE_PRICE = 150000"
definition PRICE_PER_SQFT :: real where "PRICE_PER_SQFT = 100"
definition BEDROOM_VALUE :: real where "BEDROOM_VALUE = 15000"
definition BATHROOM_VALUE :: real where "BATHROOM_VALUE = 20000"
definition YEAR_MULTIPLIER :: real where "YEAR_MULTIPLIER = 500"
definition BASE_YEAR :: real where "BASE_YEAR = 1950"
definition LOT_SIZE_VALUE :: real where "LOT_SIZE_VALUE = 100000"
definition GARAGE_VALUE :: real where "GARAGE_VALUE = 10000"
definition BASEMENT_VALUE :: real where "BASEMENT_VALUE = 20000"
definition CENTRAL_AIR_VALUE :: real where "CENTRAL_AIR_VALUE = 15000"
definition KITCHEN_QUALITY_MULTIPLIER :: real where "KITCHEN_QUALITY_MULTIPLIER = 10000"

text \<open>
  The own properties of the object literal \<open>neighborhoodFactors\<close>; each value is the
  double of its literal.
\<close>

definition neighborhoodFactors :: "(string \<times> real) list" where
  "neighborhoodFactors =
    [(''Downtown'', dbl 1.2),
     (''Suburban Heights'', dbl 1.1),
     (''Riverside'', dbl 1.15),
     (''West End'', dbl 0.95),
     (''North Hills'', dbl 1.05),
     (''Oak Park'', dbl 1.0),
     (''Maplewood'', dbl 0.9),
     (''Cedar Ridge'', dbl 1.1),
     (''Brookside'', dbl 1.05),
     (''Highland Park'', dbl 1.2)]"

text \<open>
  \<open>neighborhoodFactors\<close> is a plain object, so \<open>neighborhoodFactors[key]\<close> is a property
  read that goes on to the prototype, \<open>Object.prototype\<close>, when the object has no own
  property \<open>key\<close>. These are the property names of \<open>Object.prototype\<close> in a browser
  (ECMAScript, with its annex for web browsers); each holds a function, but
  \<open>__proto__\<close>, which reads as \<open>Object.prototype\<close> itself.
\<close>

definition Object_prototype_keys :: "string list" where
  "Object_prototype_keys =
    [''constructor'', ''hasOwnProperty'', ''isPrototypeOf'', ''propertyIsEnumerable'',
     ''toLocaleString'', ''toString'', ''valueOf'', ''__proto__'',
     ''__defineGetter__'', ''__defineSetter__'', ''__lookupGetter__'', ''__lookupSetter__'']"

text \<open>
  What a read of \<open>neighborhoodFactors[key]\<close> gives: a number (an own property),
  a function or object inherited from \<open>Object.prototype\<close>, or \<open>undefined\<close>.
\<close>

datatype factor = FUndefined | FNumber real | FInherited

definition get_factor :: "string \<Rightarrow> factor" where
  "get_factor key =
    (case map_of neighborhoodFactors key of
       Some v \<Rightarrow> FNumber v
     | None \<Rightarrow> if key \<in> set Object_prototype_keys then FInherited else FUndefined)"

text \<open>Truthiness, for \<open>||\<close>: \<open>undefined\<close> and 0 are falsy, a function or object is truthy.\<close>

fun factor_truthy :: "factor \<Rightarrow> bool" where
  "factor_truthy FUndefined = False"
| "factor_truthy (FNumber v) = (v \<noteq> 0)"
| "factor_truthy FInherited = True"

text \<open>
  The conversion to a number that \<open>*=\<close> applies to its right operand: a function or a
  plain object converts to \<open>NaN\<close>, and so does \<open>undefined\<close>.
\<close>

fun factor_to_number :: "factor \<Rightarrow> jsnum" where
  "factor_to_number (FNumber v) = Num v"
| "factor_to_number FInherited = NaN"
| "factor_to_number FUndefined = NaN"

text \<open>\<open>const neighborhoodFactor = neighborhoodFactors[data.neighborhood] || 1.0\<close>\<close>

definition neighborhoodFactor :: "HouseData \<Rightarrow> factor" where
  "neighborhoodFactor data =
    (let v = get_factor (neighborhood data) in if factor_truthy v then v else FNumber 1.0)"

text \<open>
  The sum of the ten components, the value of \<open>predictedPrice\<close> at its declaration:
  each product, difference and sum is a floating-point operation, the sums taken
  from the left as the source writes them.
\<close>

definition subtotal :: "HouseData \<Rightarrow> jsnum" where
  "subtotal data =
    (let sqftValue = js_mul (Num (squareFootage data)) (Num PRICE_PER_SQFT);
         bedroomValue = js_mul (Num (bedrooms data)) (Num BEDROOM_VALUE);
         bathroomValue = js_mul (Num (bathrooms data)) (Num BATHROOM_VALUE);
         yearValue = js_mul (js_sub (Num (yearBuilt data)) (Num BASE_YEAR)) (Num YEAR_MULTIPLIER);
         lotSizeValue = js_mul (Num (lotSize data)) (Num LOT_SIZE_VALUE);
         garageValue = js_mul (Num (garage data)) (Num GARAGE_VALUE);
         basementValue = Num (if basement data then BASEMENT_VALUE else 0);
         centralAirValue = Num (if centralAir data then CENTRAL_AIR_VALUE else 0);
         kitchenQualityValue =
           js_mul (js_sub (Num (kitchenQuality data)) (Num 1)) (Num KITCHEN_QUALITY_MULTIPLIER)
     in js_add (js_add (js_add (js_add (js_add (js_add (js_add (js_add (js_add
          (Num BASE_PRICE) sqftValue) bedroomValue) bathroomValue)
          yearValue) lotSizeValue) garageValue)
          basementValue) centralAirValue) kitchenQualityValue)"

text \<open>
  \<open>const marketVariation = 0.95 + Math.random() * 0.1\<close>. \<open>Math.random()\<close> is an input
  of the model: \<open>random\<close> is the number it returns on this call, a double with
  \<open>0 \<le> random < 1\<close>.
\<close>

definition marketVariation :: "real \<Rightarrow> jsnum" where
  "marketVariation random = js_add (Num (dbl 0.95)) (js_mul (Num random) (Num (dbl 0.1)))"

text \<open>The value of \<open>predictedPrice\<close> after the two \<open>*=\<close>, before \<open>Math.round\<close>.\<close>

definition predictedPrice :: "HouseData \<Rightarrow> real \<Rightarrow> jsnum" where
  "predictedPrice data random =
    (let p0 = subtotal data;
         p1 = js_mul p0 (factor_to_number (neighborhoodFactor data));
         p2 = js_mul p1 (marketVariation random)
     in p2)"

definition predictPrice :: "HouseData \<Rightarrow> real \<Rightarrow> jsnum" where
  "predictPrice data random = Math_round (predictedPrice data random)"

text \<open>The record of the specification's example.\<close>

definition example_house :: HouseData where
  "example_house =
    \<lparr>squareFootage = 2000, bedrooms = 3, bathrooms = 2, yearBuilt = 2000,
     neighborhood = ''Oak Park'', lotSize = 0.5, garage = 2, basement = True,
     centralAir = True, kitchenQuality = 3\<rparr>"

section \<open>Values read from a response\<close>

text \<open>
  A value as the program reads it from a response: what parsing JSON gives, and
  \<open>undefined\<close>, which a read of a missing property gives. An \<open>Object\<close> lists the own
  properties of a parsed object.
\<close>

datatype jsval =
    Undefined
  | Null
  | Bool bool
  | Number jsnum
  | Str string
  | Array "jsval list"
  | Object "(string \<times> jsval) list"

text \<open>Truthiness, for \<open>if (v)\<close> and \<open>v || w\<close>.\<close>

fun truthy :: "jsval \<Rightarrow> bool" where
  "truthy Undefined = False"
| "truthy Null = False"
| "truthy (Bool b) = b"
| "truthy (Number NaN) = False"
| "truthy (Number NegZero) = False"
| "truthy (Number PosInf) = True"
| "truthy (Number NegInf) = True"
| "truthy (Number (Num x)) = (x \<noteq> 0)"
| "truthy (Str s) = (s \<noteq> [])"
| "truthy (Array vs) = True"
| "truthy (Object kvs) = True"

definition js_or :: "jsval \<Rightarrow> jsval \<Rightarrow> jsval" where
  "js_or v w = (if truthy v then v else w)"

text \<open>
  What the program can throw: the rejection of \<open>fetch\<close> itself (no response: the host
  is unreachable, the connection fails), the failure to read a body as JSON, a property
  read on \<open>null\<close> or \<open>undefined\<close>, and \<open>new Error(v)\<close>, whose message is \<open>v\<close> as a string.
\<close>

datatype exn = FetchFailed | SyntaxError | TypeError | Error jsval

text \<open>
  The property read \<open>v.name\<close>, for the names the program reads (\<open>error\<close>, \<open>message\<close>,
  \<open>prediction\<close>, \<open>trained\<close>), which no built-in prototype defines: the own property of
  an object, \<open>undefined\<close> where there is none and on any other value, but a
  \<open>TypeError\<close> on \<open>null\<close> and \<open>undefined\<close>.
\<close>

fun get_prop :: "jsval \<Rightarrow> string \<Rightarrow> exn + jsval" where
  "get_prop Undefined name = Inl TypeError"
| "get_prop Null name = Inl TypeError"
| "get_prop (Object kvs) name =
     Inr (case map_of kvs name of Some v \<Rightarrow> v | None \<Rightarrow> Undefined)"
| "get_prop v name = Inr Undefined"

text \<open>A number in a template string: the decimal digits of a status code.\<close>

fun show_nat :: "nat \<Rightarrow> string" where
  "show_nat n =
     (if n < 10 then [char_of (48 + n)]
      else show_nat (n div 10) @ [char_of (48 + n mod 10)])"

section \<open>The HTTP transport\<close>

text \<open>
  \<open>fetch\<close> is an input of the model: a function from the request to what the call
  does, which is either to reject or to resolve to a response. Of a response the
  program reads the status, the status text, the \<open>content-type\<close> header and the body;
  \<open>parsed_body\<close> is the body read and parsed as JSON, \<open>None\<close> when that throws.
\<close>

record request =
  req_url :: string
  req_method :: string
  req_headers :: "(string \<times> string) list"
  req_mode :: "string option"
  req_credentials :: "string option"
  req_body :: "jsval option"

record response =
  status :: nat
  statusText :: string
  content_type :: "string option"
  parsed_body :: "jsval option"

datatype fetch_result = Rejected | Resolved response

text \<open>\<open>response.ok\<close>: the status is in the range 200 to 299.\<close>

definition response_ok :: "response \<Rightarrow> bool" where
  "response_ok resp = (200 \<le> status resp \<and> status resp \<le> 299)"

text \<open>\<open>await response.json()\<close>, and \<open>JSON.parse(await response.text())\<close>.\<close>

definition response_json :: "response \<Rightarrow> exn + jsval" where
  "response_json resp =
     (case parsed_body resp of None \<Rightarrow> Inl SyntaxError | Some v \<Rightarrow> Inr v)"

section \<open>The remote client: \<open>utils/prediction.ts\<close> and \<open>utils/api.ts\<close>\<close>

definition API_URL :: string where
  "API_URL = ''http://localhost:5000''"

definition status_request :: request where
  "status_request =
     \<lparr>req_url = API_URL @ ''/api/model/status'', req_method = ''GET'',
      req_headers = [(''Accept'', ''application/json'')],
      req_mode = Some ''cors'', req_credentials = None, req_body = None\<rparr>"

text \<open>The record \<open>{ trained: false, modelPath: null }\<close>.\<close>

definition untrained_status :: jsval where
  "untrained_status = Object [(''trained'', Bool False), (''modelPath'', Null)]"

text \<open>
  Each operation is a \<open>try\<close> block and its \<open>catch\<close>. The \<open>try\<close> block is a function to
  \<open>exn + 'a\<close>, \<open>Inl\<close> for a throw; the operation applies the handler to it. An operation
  raises to its caller exactly when its own result is an \<open>Inl\<close>. Logging to the console
  is left out.
\<close>

definition checkModelStatus_try :: "(request \<Rightarrow> fetch_result) \<Rightarrow> exn + jsval" where
  "checkModelStatus_try fetch =
     (case fetch status_request of
        Rejected \<Rightarrow> Inl FetchFailed
      | Resolved response \<Rightarrow>
          if \<not> response_ok response
          then Inl (Error (Str (''API status check failed with status '' @
                 show_nat (status response))))
          else response_json response)"

definition checkModelStatus :: "(request \<Rightarrow> fetch_result) \<Rightarrow> exn + jsval" where
  "checkModelStatus fetch =
     (case checkModelStatus_try fetch of
        Inl error \<Rightarrow> Inr untrained_status
      | Inr v \<Rightarrow> Inr v)"

definition predict_request :: "HouseData \<Rightarrow> request" where
  "predict_request data =
     \<lparr>req_url = API_URL @ ''/api/predict'', req_method = ''POST'',
      req_headers = [(''Content-Type'', ''application/json''), (''Accept'', ''application/json'')],
      req_mode = Some ''cors'', req_credentials = Some ''same-origin'',
      req_body = Some (Object
        [(''squareFootage'', Number (Num (squareFootage data))),
         (''bedrooms'', Number (Num (bedrooms data))),
         (''bathrooms'', Number (Num (bathrooms data))),
         (''yearBuilt'', Number (Num (yearBuilt data))),
         (''neighborhood'', Str (neighborhood data)),
         (''lotSize'', Number (Num (lotSize data))),
         (''garage'', Number (Num (garage data))),
         (''basement'', Bool (basement data)),
         (''centralAir'', Bool (centralAir data)),
         (''kitchenQuality'', Number (Num (kitchenQuality data)))])\<rparr>"

definition predictPriceFromAPI_try ::
    "(request \<Rightarrow> fetch_result) \<Rightarrow> HouseData \<Rightarrow> exn + jsval" where
  "predictPriceFromAPI_try fetch data =
     (case fetch (predict_request data) of
        Rejected \<Rightarrow> Inl FetchFailed
      | Resolved response \<Rightarrow>
          if \<not> response_ok response
          then
            (let errorData =
                   (case response_json response of Inl e \<Rightarrow> Object [] | Inr v \<Rightarrow> v)
             in case get_prop errorData ''error'' of
                  Inl e \<Rightarrow> Inl e
                | Inr err \<Rightarrow>
                    Inl (Error (js_or err (Str (''API request failed with status '' @
                      show_nat (status response))))))
          else
            (case response_json response of
               Inl e \<Rightarrow> Inl e
             | Inr result \<Rightarrow> get_prop result ''prediction''))"

definition predictPriceFromAPI ::
    "(request \<Rightarrow> fetch_result) \<Rightarrow> HouseData \<Rightarrow> exn + jsval" where
  "predictPriceFromAPI fetch data =
     (case predictPriceFromAPI_try fetch data of
        Inl error \<Rightarrow> Inr Null
      | Inr v \<Rightarrow> Inr v)"

definition checkAPIHealth_try :: "(request \<Rightarrow> fetch_result) \<Rightarrow> exn + bool" where
  "checkAPIHealth_try fetch =
     (case fetch status_request of
        Rejected \<Rightarrow> Inl FetchFailed
      | Resolved response \<Rightarrow> Inr (response_ok response))"

definition checkAPIHealth :: "(request \<Rightarrow> fetch_result) \<Rightarrow> exn + bool" where
  "checkAPIHealth fetch =
     (case checkAPIHealth_try fetch of
        Inl error \<Rightarrow> Inr False
      | Inr ok \<Rightarrow> Inr ok)"

text \<open>
  \<open>fetchWithHandling(url, options)\<close>; the request stands for both arguments.
  \<open>contentType?.includes('application/json')\<close> is a test for a substring, false when
  the header is missing. The \<open>catch\<close> logs and throws the error again.
\<close>

definition fetchWithHandling_try :: "(request \<Rightarrow> fetch_result) \<Rightarrow> request \<Rightarrow> exn + jsval" where
  "fetchWithHandling_try fetch req =
     (case fetch req of
        Rejected \<Rightarrow> Inl FetchFailed
      | Resolved response \<Rightarrow>
          if \<not> response_ok response
          then
            (let errorData =
                   (case response_json response of
                      Inl e \<Rightarrow> Object [(''message'', Str ''Non-JSON error response'')]
                    | Inr v \<Rightarrow> v)
             in case get_prop errorData ''message'' of
                  Inl e \<Rightarrow> Inl e
                | Inr msg \<Rightarrow>
                    Inl (Error (js_or msg (Str (''HTTP error! Status: '' @
                      show_nat (status response))))))
          else
            (case content_type response of
               None \<Rightarrow> Inl (Error (Str ''Invalid content type: null''))
             | Some contentType \<Rightarrow>
                 if \<not> sublist ''application/json'' contentType
                 then Inl (Error (Str (''Invalid content type: '' @ contentType)))
                 else response_json response))"

definition fetchWithHandling :: "(request \<Rightarrow> fetch_result) \<Rightarrow> request \<Rightarrow> exn + jsval" where
  "fetchWithHandling fetch req =
     (case fetchWithHandling_try fetch req of
        Inl error \<Rightarrow> Inl error
      | Inr result \<Rightarrow> Inr result)"

section \<open>The caller: \<open>handleFormSubmit\<close>\<close>

text \<open>
  \<open>checkBackendStatus\<close> of the page sets \<open>modelStatus.isAvailable\<close> to \<open>status.trained\<close>,
  and to \<open>false\<close> when that throws; before it has run, \<open>isAvailable\<close> is \<open>null\<close>.
\<close>

definition checkBackendStatus :: "(request \<Rightarrow> fetch_result) \<Rightarrow> jsval" where
  "checkBackendStatus fetch =
     (case checkModelStatus fetch of
        Inl error \<Rightarrow> Bool False
      | Inr st \<Rightarrow>
          (case get_prop st ''trained'' of
             Inl error \<Rightarrow> Bool False
           | Inr trained \<Rightarrow> trained))"

text \<open>
  What a submission does: the value given to \<open>setPredictedPrice\<close>, the tag \<open>source\<close>,
  the title of the toast, which is chosen by the tag, and the operations the call
  invoked, in order.
\<close>

datatype operation = PredictPriceFromAPI | PredictPrice

record submission =
  result_price :: jsval
  result_source :: string
  toast_title :: string
  invoked :: "operation list"

text \<open>
  \<open>handleFormSubmit\<close> with the remote operation as a parameter \<open>api\<close>, so that a remote
  operation that throws is covered as well. \<open>isAvailable\<close> is \<open>modelStatus.isAvailable\<close>
  and \<open>random\<close> is the draw of \<open>Math.random()\<close> that \<open>predictPrice\<close> makes if it is called.
\<close>

definition handleFormSubmit_with ::
    "(HouseData \<Rightarrow> exn + jsval) \<Rightarrow> jsval \<Rightarrow> HouseData \<Rightarrow> real \<Rightarrow> submission" where
  "handleFormSubmit_with api isAvailable data random =
     (let (price1, source1, calls1) =
            (if truthy isAvailable
             then (case api data of
                     Inr v \<Rightarrow> (v, ''API'', [PredictPriceFromAPI])
                   | Inl apiError \<Rightarrow> (Null, [], [PredictPriceFromAPI]))
             else (Null, [], []));
          (price2, source2, calls2) =
            (if price1 = Null
             then (Number (predictPrice data random), ''fallback'', calls1 @ [PredictPrice])
             else (price1, source1, calls1))
      in \<lparr>result_price = price2, result_source = source2,
          toast_title =
            (if source2 = ''API'' then ''ML Model Prediction'' else ''Fallback Prediction''),
          invoked = calls2\<rparr>)"

definition handleFormSubmit ::
    "(request \<Rightarrow> fetch_result) \<Rightarrow> jsval \<Rightarrow> HouseData \<Rightarrow> real \<Rightarrow> submission" where
  "handleFormSubmit fetch = handleFormSubmit_with (predictPriceFromAPI fetch)"

section \<open>\<open>formatPrice\<close>\<close>








section \<open>Quantities of the statements\<close>

text \<open>
  The closed form of the sum of the ten components, in exact real arithmetic.
\<close>

definition subtotal_real :: "HouseData \<Rightarrow> real" where
  "subtotal_real d =
     150000 + squareFootage d * 100 + bedrooms d * 15000 + bathrooms d * 20000 +
     (yearBuilt d - 1950) * 500 + lotSize d * 100000 + garage d * 10000 +
     (if basement d then 20000 else 0) + (if centralAir d then 15000 else 0) +
     (kitchenQuality d - 1) * 10000"

text \<open>
  Records whose numeric fields are at most 100000 in magnitude, which covers every
  house the form accepts.
\<close>

definition in_bounds :: "HouseData \<Rightarrow> bool" where
  "in_bounds d \<longleftrightarrow>
     \<bar>squareFootage d\<bar> \<le> 100000 \<and> \<bar>bedrooms d\<bar> \<le> 100000 \<and> \<bar>bathrooms d\<bar> \<le> 100000 \<and>
     \<bar>yearBuilt d\<bar> \<le> 100000 \<and> \<bar>lotSize d\<bar> \<le> 100000 \<and> \<bar>garage d\<bar> \<le> 100000 \<and>
     \<bar>kitchenQuality d\<bar> \<le> 100000"

text \<open>
  \<open>approx a x e X\<close>: the number \<open>a\<close> is finite and within \<open>e\<close> of the real \<open>x\<close>, whose
  magnitude is at most \<open>X\<close>.
\<close>

definition approx :: "jsnum \<Rightarrow> real \<Rightarrow> real \<Rightarrow> real \<Rightarrow> bool" where
  "approx a x e X \<longleftrightarrow> js_finite a \<and> \<bar>js_val a - x\<bar> \<le> e \<and> \<bar>x\<bar> \<le> X"

text \<open>A number whose value is a double.\<close>

definition js_double :: "jsnum \<Rightarrow> bool" where
  "js_double v \<longleftrightarrow> (case v of Num y \<Rightarrow> to_double y = Num y | _ \<Rightarrow> True)"

section \<open>Inputs for the examples\<close>

definition toString_house :: HouseData where
  "toString_house = example_house\<lparr>neighborhood := ''toString''\<rparr>"

definition riverside_house :: HouseData where
  "riverside_house = example_house\<lparr>neighborhood := ''Riverside''\<rparr>"


definition unreachable_host :: "request \<Rightarrow> fetch_result" where
  "unreachable_host req = Rejected"

definition server_error :: "request \<Rightarrow> fetch_result" where
  "server_error req =
     Resolved \<lparr>status = 500, statusText = ''INTERNAL SERVER ERROR'',
       content_type = Some ''application/json'',
       parsed_body = Some (Object [(''error'', Str ''Model not loaded'')])\<rparr>"

definition html_page :: "request \<Rightarrow> fetch_result" where
  "html_page req =
     Resolved \<lparr>status = 200, statusText = ''OK'',
       content_type = Some ''text/html'', parsed_body = None\<rparr>"

definition trained_backend :: "request \<Rightarrow> fetch_result" where
  "trained_backend req =
     Resolved \<lparr>status = 200, statusText = ''OK'',
       content_type = Some ''application/json'',
       parsed_body = Some
         (if req_method req = ''POST''
          then Object [(''prediction'', Number (Num 612345))]
          else Object [(''trained'', Bool True), (''modelPath'', Str ''models/house.pkl'')])\<rparr>"

section \<open>Facts about rounding to a double\<close>

lemma round_half_even_close: "\<bar>of_int (round_half_even y) - y\<bar> \<le> 1 / 2"
  unfolding round_half_even_def Let_def by (auto simp: abs_le_iff; linarith)

lemma round_half_even_of_int [simp]: "round_half_even (of_int k) = k"
  by (simp add: round_half_even_def)

lemma round_half_even_mono: "y \<le> y' \<Longrightarrow> round_half_even y \<le> round_half_even y'"
proof -
  assume le: "y \<le> y'"
  have fl: "\<lfloor>y\<rfloor> \<le> \<lfloor>y'\<rfloor>" using le by (rule floor_mono)
  have b: "\<lfloor>y\<rfloor> \<le> round_half_even y" "round_half_even y \<le> \<lfloor>y\<rfloor> + 1"
    "\<lfloor>y'\<rfloor> \<le> round_half_even y'"
    by (auto simp: round_half_even_def Let_def)
  show ?thesis
  proof (cases "\<lfloor>y\<rfloor> = \<lfloor>y'\<rfloor>")
    case True
    with le show ?thesis by (auto simp: round_half_even_def Let_def)
  next
    case False
    with fl have "\<lfloor>y\<rfloor> + 1 \<le> \<lfloor>y'\<rfloor>" by simp
    with b show ?thesis by linarith
  qed
qed

lemma round_half_even_nonneg: "0 \<le> y \<Longrightarrow> 0 \<le> round_half_even y"
  using round_half_even_mono [of 0 y] by (simp add: round_half_even_def)

lemma binade_from_range: "- 1074 \<le> binade_from n a \<and> binade_from n a \<le> int n - 1074"
  by (induction n) auto

lemma binade_from_lower:
  "binade_from n a \<noteq> - 1074 \<Longrightarrow> 2 powi (binade_from n a + 52) \<le> a"
  by (induction n) (auto split: if_splits)

lemma binade_from_upper:
  "a < 2 powi (int n - 1021) \<Longrightarrow> a < 2 powi (binade_from n a + 53)"
proof (induction n)
  case 0
  then show ?case by simp
next
  case (Suc n)
  show ?case
  proof (cases "2 powi (int n - 1021) \<le> a")
    case True
    with Suc.prems show ?thesis by (simp add: algebra_simps)
  next
    case False
    then have "a < 2 powi (int n - 1021)" by simp
    from Suc.IH [OF this] False show ?thesis by simp
  qed
qed

lemma ulp_exponent_range: "- 1074 \<le> ulp_exponent x \<and> ulp_exponent x \<le> 971"
  using binade_from_range [of 2045 "\<bar>x\<bar>"] by (simp add: ulp_exponent_def)

lemma ulp_exponent_lower:
  "ulp_exponent x \<noteq> - 1074 \<Longrightarrow> 2 powi (ulp_exponent x + 52) \<le> \<bar>x\<bar>"
  unfolding ulp_exponent_def by (rule binade_from_lower)

lemma ulp_exponent_upper:
  "\<bar>x\<bar> < 2 powi 1024 \<Longrightarrow> \<bar>x\<bar> < 2 powi (ulp_exponent x + 53)"
  unfolding ulp_exponent_def using binade_from_upper [of "\<bar>x\<bar>" 2045] by simp

lemma pow2_less_iff: "(2::real) powi a < 2 powi b \<longleftrightarrow> a < b"
  by (metis linorder_not_less one_less_numeral_iff power_int_increasing power_int_strict_increasing
      semiring_norm(76) order_less_imp_le)

lemma pow2_le_iff: "(2::real) powi a \<le> 2 powi b \<longleftrightarrow> a \<le> b"
  by (metis linorder_not_less one_less_numeral_iff power_int_increasing power_int_strict_increasing
      semiring_norm(76) order_less_imp_le)


lemma ulp_exponent_eq:
  assumes "2 powi (e + 52) \<le> \<bar>x\<bar>" "\<bar>x\<bar> < 2 powi (e + 53)" "- 1074 \<le> e" "e \<le> 971"
  shows "ulp_exponent x = e"
proof -
  let ?u = "ulp_exponent x"
  have "\<bar>x\<bar> < 2 powi 1024"
    using assms(2,4) pow2_le_iff [of "e + 53" 1024] by (simp add: order_less_le_trans)
  then have up: "\<bar>x\<bar> < 2 powi (?u + 53)" by (rule ulp_exponent_upper)
  have "2 powi (e + 52) < (2::real) powi (?u + 53)"
    using assms(1) up by linarith
  then have 1: "e \<le> ?u" by (simp add: pow2_less_iff)
  have 2: "?u \<le> e"
  proof (cases "?u = - 1074")
    case True
    then show ?thesis using assms(3) by simp
  next
    case False
    then have "2 powi (?u + 52) \<le> \<bar>x\<bar>" by (rule ulp_exponent_lower)
    then have "2 powi (?u + 52) < (2::real) powi (e + 53)" using assms(2) by linarith
    then show ?thesis by (simp add: pow2_less_iff)
  qed
  from 1 2 show ?thesis by simp
qed

lemma ulp_exponent_subnormal:
  assumes "\<bar>x\<bar> < 2 powi (- 1021)"
  shows "ulp_exponent x = - 1074"
proof (rule ccontr)
  assume "ulp_exponent x \<noteq> - 1074"
  then have "2 powi (ulp_exponent x + 52) \<le> \<bar>x\<bar>" by (rule ulp_exponent_lower)
  then have "2 powi (ulp_exponent x + 52) < (2::real) powi (- 1021)" using assms by linarith
  then have "ulp_exponent x + 52 < - 1021" by (simp only: pow2_less_iff)
  then have "ulp_exponent x < - 1073" by simp
  with ulp_exponent_range [of x] \<open>ulp_exponent x \<noteq> - 1074\<close> show False by linarith
qed

text \<open>The distance from a real below the overflow threshold to its rounding.\<close>

lemma rounding_distance:
  fixes x :: real
  defines "e \<equiv> ulp_exponent x"
  defines "y \<equiv> real_of_int (round_half_even (\<bar>x\<bar> / 2 powi e)) * 2 powi e"
  shows "\<bar>y - \<bar>x\<bar>\<bar> \<le> 2 powi e / 2"
proof -
  have "\<bar>of_int (round_half_even (\<bar>x\<bar> / 2 powi e)) - \<bar>x\<bar> / 2 powi e\<bar> \<le> 1 / 2"
    by (rule round_half_even_close)
  then have "\<bar>of_int (round_half_even (\<bar>x\<bar> / 2 powi e)) - \<bar>x\<bar> / 2 powi e\<bar> * 2 powi e
      \<le> 1 / 2 * 2 powi e"
    by (intro mult_right_mono) simp_all
  moreover have "\<bar>of_int (round_half_even (\<bar>x\<bar> / 2 powi e)) - \<bar>x\<bar> / 2 powi e\<bar> * 2 powi e
      = \<bar>y - \<bar>x\<bar>\<bar>"
  proof -
    have "\<bar>y - \<bar>x\<bar>\<bar> = \<bar>(of_int (round_half_even (\<bar>x\<bar> / 2 powi e)) - \<bar>x\<bar> / 2 powi e) * 2 powi e\<bar>"
      by (simp add: y_def algebra_simps)
    also have "\<dots> = \<bar>of_int (round_half_even (\<bar>x\<bar> / 2 powi e)) - \<bar>x\<bar> / 2 powi e\<bar> * 2 powi e"
      by (simp add: abs_mult)
    finally show ?thesis by simp
  qed
  ultimately show ?thesis by simp
qed

lemma to_double_cases:
  fixes x :: real
  defines "y \<equiv> real_of_int (round_half_even (\<bar>x\<bar> / 2 powi ulp_exponent x)) * 2 powi ulp_exponent x"
  assumes "y < 2 powi 1024"
  shows "js_finite (to_double x) \<and> js_val (to_double x) = (if x < 0 then - y else y)"
  using assms(2) unfolding to_double_def Let_def y_def by auto

lemma to_double_error:
  assumes B: "\<bar>x\<bar> \<le> B" "1 \<le> B" "B \<le> 2 ^ 1023"
  shows "js_finite (to_double x) \<and> \<bar>js_val (to_double x) - x\<bar> \<le> B / 2 ^ 53"
proof -
  let ?e = "ulp_exponent x"
  define y where "y = real_of_int (round_half_even (\<bar>x\<bar> / 2 powi ?e)) * 2 powi ?e"
  have dist: "\<bar>y - \<bar>x\<bar>\<bar> \<le> 2 powi ?e / 2"
    unfolding y_def by (rule rounding_distance)
  have half: "2 powi ?e / 2 \<le> B / 2 ^ 53"
  proof (cases "?e = - 1074")
    case True
    have "(2::real) powi (- 1074) / 2 \<le> 1 / 2 ^ 53"
      by (simp add: power_int_minus_divide)
    also have "\<dots> \<le> B / 2 ^ 53" using B(2) by (simp add: divide_right_mono)
    finally show ?thesis using True by simp
  next
    case False
    then have "2 powi (?e + 52) \<le> \<bar>x\<bar>" by (rule ulp_exponent_lower)
    then have "2 powi (?e + 52) \<le> B" using B(1) by linarith
    moreover have "(2::real) powi (?e + 52) = 2 powi ?e * 2 ^ 52"
      by (simp add: power_int_add)
    ultimately have "2 powi ?e * 2 ^ 52 \<le> B" by simp
    then show ?thesis by (simp add: field_simps)
  qed
  have "y \<le> \<bar>x\<bar> + B / 2 ^ 53" using dist half by linarith
  also have "\<dots> \<le> B + B / 2 ^ 53" using B(1) by simp
  also have "\<dots> < 2 powi 1024"
  proof -
    have "B / 2 ^ 53 \<le> B / 2" using B(2) by (simp add: field_simps)
    then have "B + B / 2 ^ 53 \<le> 3 / 2 * B" by simp
    also have "\<dots> \<le> 3 / 2 * 2 ^ 1023" using B(3) by simp
    also have "\<dots> < 2 * 2 ^ 1023" by simp
    also have "\<dots> = 2 powi 1024" by simp
    finally show ?thesis .
  qed
  finally have "y < 2 powi 1024" .
  from to_double_cases [of x, folded y_def, OF this]
  have fin: "js_finite (to_double x)" and v: "js_val (to_double x) = (if x < 0 then - y else y)"
    by simp_all
  have "\<bar>js_val (to_double x) - x\<bar> = \<bar>y - \<bar>x\<bar>\<bar>"
    unfolding v by (cases "x < 0") simp_all
  with dist half fin show ?thesis by simp
qed

lemma binade_from_mono: "a \<le> b \<Longrightarrow> binade_from n a \<le> binade_from n b"
proof (induction n)
  case 0
  then show ?case by simp
next
  case (Suc n)
  then show ?case
    using binade_from_range [of n a] by auto
qed

lemma ulp_exponent_mono: "\<bar>x\<bar> \<le> \<bar>x'\<bar> \<Longrightarrow> ulp_exponent x \<le> ulp_exponent x'"
  unfolding ulp_exponent_def by (rule binade_from_mono)

lemma ulp_exponent_top: "2 powi 1023 \<le> \<bar>x\<bar> \<Longrightarrow> ulp_exponent x = 971"
proof -
  assume a: "2 powi 1023 \<le> \<bar>x\<bar>"
  have s: "Suc 2044 = 2045" by simp
  have i: "int 2044 - 1021 = 1023" "int 2044 - 1073 = 971" by simp_all
  from binade_from.simps(2) [of 2044 "\<bar>x\<bar>", unfolded s i] a
  show ?thesis unfolding ulp_exponent_def by (simp only: if_True)
qed

text \<open>A real at or beyond \<open>2^1024\<close> rounds to an infinity.\<close>

lemma rounded_overflow:
  assumes "2 powi 1024 \<le> \<bar>x\<bar>"
  shows "2 powi 1024 \<le> real_of_int (round_half_even (\<bar>x\<bar> / 2 powi ulp_exponent x)) * 2 powi ulp_exponent x"
proof -
  have "(2::real) powi 1023 \<le> 2 powi 1024" by (simp add: pow2_le_iff del: power_int_numeral)
  with assms have e: "ulp_exponent x = 971" by (intro ulp_exponent_top) linarith
  have "(2::real) powi 1024 = 2 powi 53 * 2 powi 971"
    by simp
  with assms have "2 powi 53 * 2 powi 971 \<le> \<bar>x\<bar>" by simp
  then have "2 powi 53 \<le> \<bar>x\<bar> / 2 powi 971"
    by (simp add: field_simps del: power_int_numeral)
  then have "round_half_even (2 powi 53) \<le> round_half_even (\<bar>x\<bar> / 2 powi 971)"
    by (rule round_half_even_mono)
  moreover have "(2::real) powi 53 = of_int (2 ^ 53)" by simp
  ultimately have "2 ^ 53 \<le> round_half_even (\<bar>x\<bar> / 2 powi 971)"
    by (simp only: round_half_even_of_int)
  then have "real_of_int (2 ^ 53) \<le> real_of_int (round_half_even (\<bar>x\<bar> / 2 powi 971))"
    by (simp only: of_int_le_iff)
  then have "real_of_int (2 ^ 53) * 2 powi 971
      \<le> real_of_int (round_half_even (\<bar>x\<bar> / 2 powi 971)) * 2 powi 971"
    by (intro mult_right_mono) simp_all
  moreover have "real_of_int (2 ^ 53) * 2 powi 971 = 2 powi 1024"
    by simp
  ultimately show ?thesis unfolding e by simp
qed

lemma to_double_finiteD:
  assumes "js_finite (to_double x)"
  shows "\<bar>x\<bar> < 2 powi 1024"
    and "real_of_int (round_half_even (\<bar>x\<bar> / 2 powi ulp_exponent x)) * 2 powi ulp_exponent x
          < 2 powi 1024"
proof -
  show y: "real_of_int (round_half_even (\<bar>x\<bar> / 2 powi ulp_exponent x)) * 2 powi ulp_exponent x
          < 2 powi 1024"
    using assms unfolding to_double_def Let_def by (auto split: if_splits)
  show "\<bar>x\<bar> < 2 powi 1024"
    using rounded_overflow [of x] y by linarith
qed


text \<open>A real that is a double is its own rounding.\<close>

lemma to_double_exact:
  assumes x: "x = real_of_int k * 2 powi j" and k: "\<bar>k\<bar> < 2 ^ 53" and j: "- 1074 \<le> j"
    and lt: "\<bar>x\<bar> < 2 powi 1024"
  shows "to_double x = Num x"
proof -
  let ?e = "ulp_exponent x"
  have ax: "\<bar>x\<bar> = real_of_int \<bar>k\<bar> * 2 powi j"
    unfolding x by (simp add: abs_mult)
  have ej: "?e \<le> j"
  proof (cases "?e = - 1074")
    case True
    then show ?thesis using j by simp
  next
    case False
    then have "2 powi (?e + 52) \<le> \<bar>x\<bar>" by (rule ulp_exponent_lower)
    also have "\<bar>x\<bar> < 2 ^ 53 * 2 powi j"
    proof -
      have "real_of_int \<bar>k\<bar> < 2 ^ 53" using k by (metis of_int_less_iff of_int_numeral of_int_power)
      then show ?thesis unfolding ax by (intro mult_strict_right_mono) simp_all
    qed
    also have "\<dots> = 2 powi (j + 53)" by (simp add: power_int_add)
    finally have "?e + 52 < j + 53" by (simp only: pow2_less_iff)
    then show ?thesis by simp
  qed
  have "\<bar>x\<bar> / 2 powi ?e = real_of_int \<bar>k\<bar> * 2 powi (j - ?e)"
    unfolding ax by (simp add: power_int_diff)
  also have "2 powi (j - ?e) = (2::real) ^ nat (j - ?e)"
    using ej by (simp add: power_int_nonneg_exp)
  finally have q: "\<bar>x\<bar> / 2 powi ?e = real_of_int (\<bar>k\<bar> * 2 ^ nat (j - ?e))"
    by simp
  have m: "round_half_even (\<bar>x\<bar> / 2 powi ?e) = \<bar>k\<bar> * 2 ^ nat (j - ?e)"
    unfolding q by (rule round_half_even_of_int)
  have y: "real_of_int (round_half_even (\<bar>x\<bar> / 2 powi ?e)) * 2 powi ?e = \<bar>x\<bar>"
    unfolding m q [symmetric] by simp
  have m0: "round_half_even (\<bar>x\<bar> / 2 powi ?e) = 0 \<longleftrightarrow> x = 0"
    using y by (metis abs_eq_0 mult_eq_0_iff of_int_eq_0_iff power_int_eq_0_iff zero_neq_numeral
        divide_eq_0_iff round_half_even_of_int of_int_0)
  show ?thesis
    unfolding to_double_def Let_def y m0 using lt by auto
qed

lemma to_double_int:
  assumes "x \<in> \<int>" "\<bar>x\<bar> < 2 ^ 53"
  shows "to_double x = Num x"
proof -
  from assms(1) obtain k where k: "x = real_of_int k" by (auto elim: Ints_cases)
  have "\<bar>k\<bar> < 2 ^ 53"
    using assms(2) unfolding k by (metis of_int_abs of_int_less_iff of_int_numeral of_int_power)
  moreover have "\<bar>x\<bar> < 2 powi 1024"
  proof -
    have "(2::real) ^ 53 \<le> 2 ^ 1024" by (rule power_increasing) simp_all
    then show ?thesis using assms(2) by simp
  qed
  ultimately show ?thesis
    by (intro to_double_exact [of x k 0]) (simp_all add: k)
qed

text \<open>Rounding is monotone on the non-negative reals.\<close>

lemma to_double_mono:
  assumes "0 \<le> x" "x \<le> x'" "js_finite (to_double x')"
  shows "js_finite (to_double x) \<and> js_val (to_double x) \<le> js_val (to_double x')"
proof -
  let ?e = "ulp_exponent x" and ?e' = "ulp_exponent x'"
  define y where "y = real_of_int (round_half_even (\<bar>x\<bar> / 2 powi ?e)) * 2 powi ?e"
  define y' where "y' = real_of_int (round_half_even (\<bar>x'\<bar> / 2 powi ?e')) * 2 powi ?e'"
  have x': "\<bar>x'\<bar> < 2 powi 1024" and y': "y' < 2 powi 1024"
    using to_double_finiteD [OF assms(3)] by (simp_all add: y'_def)
  have ax: "\<bar>x\<bar> = x" "\<bar>x'\<bar> = x'" using assms by simp_all
  have xlt: "\<bar>x\<bar> < 2 powi 1024" using x' assms by simp
  have ee: "?e \<le> ?e'" using assms by (intro ulp_exponent_mono) simp
  have yy: "y \<le> y'"
  proof (cases "?e = ?e'")
    case True
    have "x / 2 powi ?e' \<le> x' / 2 powi ?e'"
      using assms(2) by (intro divide_right_mono) simp_all
    then have "round_half_even (x / 2 powi ?e') \<le> round_half_even (x' / 2 powi ?e')"
      by (rule round_half_even_mono)
    then have "real_of_int (round_half_even (x / 2 powi ?e')) * 2 powi ?e'
        \<le> real_of_int (round_half_even (x' / 2 powi ?e')) * 2 powi ?e'"
      by (intro mult_right_mono) simp_all
    then show ?thesis unfolding y_def y'_def ax True .
  next
    case False
    with ee have lt: "?e + 1 \<le> ?e'" by simp
    then have "?e' \<noteq> - 1074" using ulp_exponent_range [of x] by linarith
    then have "2 powi (?e' + 52) \<le> x'" using ulp_exponent_lower [of x'] ax by simp
    moreover have "(2::real) powi (?e' + 52) = 2 ^ 52 * 2 powi ?e'"
      by (simp add: power_int_add)
    ultimately have "real_of_int (2 ^ 52) \<le> x' / 2 powi ?e'"
      by (simp add: field_simps)
    then have "round_half_even (real_of_int (2 ^ 52)) \<le> round_half_even (x' / 2 powi ?e')"
      by (rule round_half_even_mono)
    then have "2 ^ 52 \<le> round_half_even (x' / 2 powi ?e')"
      by (simp only: round_half_even_of_int)
    then have "real_of_int (2 ^ 52) \<le> real_of_int (round_half_even (x' / 2 powi ?e'))"
      by (simp only: of_int_le_iff)
    then have "real_of_int (2 ^ 52) * 2 powi ?e' \<le> y'"
      unfolding y'_def ax by (intro mult_right_mono) simp_all
    then have low: "2 powi (?e' + 52) \<le> y'"
      by (simp add: power_int_add)
    have "x < 2 powi (?e + 53)" using ulp_exponent_upper [OF xlt] ax by simp
    moreover have "(2::real) powi (?e + 53) = 2 ^ 53 * 2 powi ?e"
      by (simp add: power_int_add)
    ultimately have "x / 2 powi ?e \<le> real_of_int (2 ^ 53)"
      by (simp add: field_simps)
    then have "round_half_even (x / 2 powi ?e) \<le> round_half_even (real_of_int (2 ^ 53))"
      by (rule round_half_even_mono)
    then have "round_half_even (x / 2 powi ?e) \<le> 2 ^ 53"
      by (simp only: round_half_even_of_int)
    then have "real_of_int (round_half_even (x / 2 powi ?e)) \<le> real_of_int (2 ^ 53)"
      by (simp only: of_int_le_iff)
    then have "y \<le> real_of_int (2 ^ 53) * 2 powi ?e"
      unfolding y_def ax by (intro mult_right_mono) simp_all
    also have "\<dots> = 2 powi (?e + 53)" by (simp add: power_int_add)
    also have "\<dots> \<le> 2 powi (?e' + 52)" using lt by (simp add: pow2_le_iff del: power_int_numeral)
    finally show ?thesis using low by linarith
  qed
  have ylt: "y < 2 powi 1024" using yy y' by linarith
  from to_double_cases [of x, folded y_def, OF ylt] to_double_cases [of x', folded y'_def, OF y']
  show ?thesis using assms yy by (simp add: not_less)
qed

section \<open>Facts about the arithmetic\<close>

lemma js_mul_NaN [simp]: "js_mul a NaN = NaN" "js_mul NaN b = NaN"
  by (simp_all add: js_mul_def)

lemma js_add_NaN [simp]: "js_add a NaN = NaN" "js_add NaN b = NaN"
  by (simp_all add: js_add_def)

lemma js_finite_iff: "js_finite a \<longleftrightarrow> a \<noteq> NaN \<and> \<not> js_infinite a"
  by (cases a) simp_all

lemma js_mul_finite:
  "js_finite a \<Longrightarrow> js_finite b \<Longrightarrow>
   js_mul a b =
     (if js_val a * js_val b = 0
      then (if js_negative a \<noteq> js_negative b then NegZero else Num 0)
      else to_double (js_val a * js_val b))"
  by (auto simp: js_mul_def js_finite_iff)

lemma js_add_finite:
  "js_finite a \<Longrightarrow> js_finite b \<Longrightarrow>
   js_add a b =
     (if js_val a + js_val b = 0
      then (if js_negative a \<and> js_negative b then NegZero else Num 0)
      else to_double (js_val a + js_val b))"
  by (auto simp: js_add_def js_finite_iff)

lemma js_neg_finite [simp]: "js_finite (js_neg a) = js_finite a"
  by (cases a) simp_all

lemma js_val_neg [simp]: "js_val (js_neg a) = - js_val a"
  by (cases a) simp_all

text \<open>Exact operations: a result that is a double is not rounded.\<close>

lemma js_add_int:
  "x + y \<in> \<int> \<Longrightarrow> \<bar>x + y\<bar> < 2 ^ 53 \<Longrightarrow> js_add (Num x) (Num y) = Num (x + y)"
  by (simp add: js_add_finite to_double_int)

lemma js_mul_int:
  "x * y \<in> \<int> \<Longrightarrow> \<bar>x * y\<bar> < 2 ^ 53 \<Longrightarrow> x * y \<noteq> 0 \<or> 0 \<le> x \<and> 0 \<le> y \<Longrightarrow>
   js_mul (Num x) (Num y) = Num (x * y)"
  by (auto simp: js_mul_finite to_double_int)

lemma js_sub_int:
  "x - y \<in> \<int> \<Longrightarrow> \<bar>x - y\<bar> < 2 ^ 53 \<Longrightarrow> js_sub (Num x) (Num y) = Num (x - y)"
  by (auto simp: js_sub_def js_add_finite to_double_int)

lemma to_double_round_eval:
  assumes "0 < x" "2 powi (e + 52) \<le> x" "x < 2 powi (e + 53)" "- 1074 \<le> e" "e \<le> 971"
    and "round_half_even (x / 2 powi e) = m" "0 < m"
    and "real_of_int m * 2 powi e < 2 powi 1024"
  shows "to_double x = Num (real_of_int m * 2 powi e)"
proof -
  have "ulp_exponent x = e"
    using assms(1-5) by (intro ulp_exponent_eq) simp_all
  then show ?thesis
    using assms unfolding to_double_def Let_def by (simp del: power_int_numeral)
qed

lemma dbl_values:
  "dbl (19 / 20) = 4278419646001971 / 2 ^ 52"
  "dbl (1 / 10) = 3602879701896397 / 2 ^ 55"
  "dbl (21 / 20) = 4728779608739021 / 2 ^ 52"
  unfolding dbl_def
  by (subst to_double_round_eval [where e = "- 53" and m = 8556839292003942],
      simp_all add: round_half_even_def)
    (subst to_double_round_eval [where e = "- 56" and m = 7205759403792794],
      simp_all add: round_half_even_def,
     subst to_double_round_eval [where e = "- 52" and m = 4728779608739021],
      simp_all add: round_half_even_def)

lemma dbl_int: "x \<in> \<int> \<Longrightarrow> \<bar>x\<bar> < 2 ^ 53 \<Longrightarrow> dbl x = x"
  by (simp add: dbl_def to_double_int)

lemma js_mul_round:
  assumes "0 < x * y" "2 powi (e + 52) \<le> x * y" "x * y < 2 powi (e + 53)"
    "- 1074 \<le> e" "e \<le> 971"
    and "round_half_even (x * y / 2 powi e) = m" "0 < m"
    and "real_of_int m * 2 powi e < 2 powi 1024"
  shows "js_mul (Num x) (Num y) = Num (real_of_int m * 2 powi e)"
proof -
  have "x * y \<noteq> 0" using assms(1) by (rule less_imp_neq [THEN not_sym])
  then show ?thesis
    using to_double_round_eval [OF assms] by (simp add: js_mul_finite)
qed

lemma js_add_round:
  assumes "0 < x + y" "2 powi (e + 52) \<le> x + y" "x + y < 2 powi (e + 53)"
    "- 1074 \<le> e" "e \<le> 971"
    and "round_half_even ((x + y) / 2 powi e) = m" "0 < m"
    and "real_of_int m * 2 powi e < 2 powi 1024"
  shows "js_add (Num x) (Num y) = Num (real_of_int m * 2 powi e)"
proof -
  have "x + y \<noteq> 0" using assms(1) by simp
  then show ?thesis
    using to_double_round_eval [OF assms] by (simp add: js_add_finite)
qed

lemma js_finite_Num: "js_finite v \<Longrightarrow> js_val v \<noteq> 0 \<Longrightarrow> v = Num (js_val v)"
  by (cases v) auto

lemma table_values:
  "dbl (6 / 5) = 5404319552844595 / 2 ^ 52"
  "dbl (11 / 10) = 2476979795053773 / 2 ^ 51"
  "dbl (23 / 20) = 2589569785738035 / 2 ^ 51"
  "dbl (9 / 10) = 8106479329266893 / 2 ^ 53"
  "dbl 1 = 1"
  unfolding dbl_def
  by (subst to_double_round_eval [where e = "- 52" and m = 5404319552844595],
      simp_all add: round_half_even_def)
    (subst to_double_round_eval [where e = "- 52" and m = 4953959590107546],
      simp_all add: round_half_even_def,
     subst to_double_round_eval [where e = "- 52" and m = 5179139571476070],
      simp_all add: round_half_even_def,
     subst to_double_round_eval [where e = "- 53" and m = 8106479329266893],
      simp_all add: round_half_even_def to_double_int)

lemma to_double_literals:
  "to_double (dbl (19 / 20)) = Num (dbl (19 / 20))"
  "to_double (dbl (1 / 10)) = Num (dbl (1 / 10))"
  "to_double (dbl (19 / 20) + dbl (1 / 10)) = Num (dbl (21 / 20))"
proof -
  show "to_double (dbl (19 / 20)) = Num (dbl (19 / 20))"
    by (rule to_double_exact [where k = 4278419646001971 and j = "- 52"])
      (simp_all add: dbl_values)
  show "to_double (dbl (1 / 10)) = Num (dbl (1 / 10))"
    by (rule to_double_exact [where k = 3602879701896397 and j = "- 55"])
      (simp_all add: dbl_values)
  have "to_double (dbl (19 / 20) + dbl (1 / 10)) = Num (real_of_int 4728779608739021 * 2 powi (- 52))"
    by (rule to_double_round_eval) (simp_all add: dbl_values round_half_even_def)
  then show "to_double (dbl (19 / 20) + dbl (1 / 10)) = Num (dbl (21 / 20))"
    by (simp add: dbl_values)
qed

text \<open>The rounding of a real is a double: rounding it again changes nothing.\<close>

lemma to_double_idem:
  assumes "to_double x = Num y"
  shows "to_double y = Num y"
proof -
  let ?e = "ulp_exponent x"
  define m where "m = round_half_even (\<bar>x\<bar> / 2 powi ?e)"
  have fin: "js_finite (to_double x)" using assms by simp
  have xlt: "\<bar>x\<bar> < 2 powi 1024" and ylt: "real_of_int m * 2 powi ?e < 2 powi 1024"
    using to_double_finiteD [OF fin] by (simp_all add: m_def)
  have y: "y = (if x < 0 then - (real_of_int m * 2 powi ?e) else real_of_int m * 2 powi ?e)"
    using to_double_cases [of x, OF ylt [unfolded m_def]] assms by (simp add: m_def)
  have m0: "0 \<le> m" unfolding m_def by (rule round_half_even_nonneg) simp
  have "\<bar>x\<bar> < 2 powi (?e + 53)" using xlt by (rule ulp_exponent_upper)
  moreover have "(2::real) powi (?e + 53) = 2 ^ 53 * 2 powi ?e"
    by (simp add: power_int_add)
  ultimately have "\<bar>x\<bar> / 2 powi ?e \<le> real_of_int (2 ^ 53)"
    by (simp add: field_simps)
  then have "m \<le> round_half_even (real_of_int (2 ^ 53))"
    unfolding m_def by (rule round_half_even_mono)
  then have m53: "m \<le> 2 ^ 53" by (simp only: round_half_even_of_int)
  have ay: "\<bar>y\<bar> = real_of_int m * 2 powi ?e"
    unfolding y using m0 by (simp add: abs_mult)
  have e: "- 1074 \<le> ?e" using ulp_exponent_range [of x] by simp
  show ?thesis
  proof (cases "m = 2 ^ 53")
    case True
    have "y = real_of_int (if x < 0 then - (2 ^ 52) else 2 ^ 52) * 2 powi (?e + 1)"
      unfolding y True by (simp add: power_int_add)
    then show ?thesis
      by (rule to_double_exact) (use e ylt ay in \<open>auto simp: True\<close>)
  next
    case False
    with m53 have "m < 2 ^ 53" by simp
    moreover have "y = real_of_int (if x < 0 then - m else m) * 2 powi ?e"
      unfolding y by simp
    ultimately show ?thesis
      by (intro to_double_exact [where k = "if x < 0 then - m else m" and j = ?e])
        (use e ylt ay m0 in auto)
  qed
qed

lemma js_double_to_double: "js_double (to_double x)"
  by (auto simp: js_double_def to_double_idem split: jsnum.splits)

lemma js_double_mul: "js_double (js_mul a b)"
  unfolding js_mul_def using js_double_to_double
  by (auto simp: js_double_def to_double_int)

lemma js_mul_one:
  assumes "js_double v"
  shows "js_mul v (Num 1) = v"
proof (cases v)
  case (Num y)
  then have "to_double y = Num y" using assms by (simp add: js_double_def)
  then show ?thesis using Num by (auto simp: js_mul_finite to_double_int)
qed (simp_all add: js_mul_def)

subsection \<open>Error bounds\<close>

lemma approx_Num: "\<bar>x\<bar> \<le> X \<Longrightarrow> approx (Num x) x 0 X"
  by (simp add: approx_def)

lemma approx_weaken: "approx a x e X \<Longrightarrow> e \<le> e' \<Longrightarrow> X \<le> X' \<Longrightarrow> approx a x e' X'"
  by (auto simp: approx_def)

lemma approx_mul_const:
  assumes a: "approx a x e X" and c: "\<bar>c\<bar> \<le> C"
    and B: "(X + e) * C \<le> B" "1 \<le> B" "B \<le> 2 ^ 1023"
  shows "approx (js_mul a (Num c)) (x * c) (e * C + B / 2 ^ 53) (X * C)"
proof -
  from a have fin: "js_finite a" and ae: "\<bar>js_val a - x\<bar> \<le> e" and xX: "\<bar>x\<bar> \<le> X"
    by (simp_all add: approx_def)
  have e0: "0 \<le> e" using ae by linarith
  have X0: "0 \<le> X" using xX by linarith
  have C0: "0 \<le> C" using c by linarith
  let ?p = "js_val a * c"
  have "\<bar>js_val a\<bar> \<le> X + e" using ae xX by linarith
  then have "\<bar>js_val a\<bar> * \<bar>c\<bar> \<le> (X + e) * C"
    using c by (intro mult_mono) (use X0 e0 in simp_all)
  then have pB: "\<bar>?p\<bar> \<le> B" using B(1) by (simp add: abs_mult)
  have "\<bar>?p - x * c\<bar> = \<bar>js_val a - x\<bar> * \<bar>c\<bar>"
    by (simp add: abs_mult [symmetric] algebra_simps)
  also have "\<dots> \<le> e * C"
    using ae c by (intro mult_mono) (use e0 in simp_all)
  finally have d1: "\<bar>?p - x * c\<bar> \<le> e * C" .
  have B0: "0 \<le> B / 2 ^ 53" using B(2) by simp
  have r: "js_finite (js_mul a (Num c)) \<and> \<bar>js_val (js_mul a (Num c)) - ?p\<bar> \<le> B / 2 ^ 53"
  proof (cases "?p = 0")
    case True
    have "js_mul a (Num c) = NegZero \<or> js_mul a (Num c) = Num 0"
      using fin by (simp add: js_mul_finite True)
    then have "js_finite (js_mul a (Num c)) \<and> js_val (js_mul a (Num c)) = 0"
      by auto
    then show ?thesis unfolding True using B0 by simp
  next
    case False
    then show ?thesis
      using fin to_double_error [OF pB B(2,3)] by (simp add: js_mul_finite)
  qed
  have "\<bar>x * c\<bar> \<le> X * C"
    unfolding abs_mult using xX c by (intro mult_mono) (use X0 in simp_all)
  with r d1 show ?thesis unfolding approx_def by linarith
qed

lemma approx_add:
  assumes a: "approx a x ea X" and b: "approx b y eb Y"
    and B: "X + Y + ea + eb \<le> B" "1 \<le> B" "B \<le> 2 ^ 1023"
  shows "approx (js_add a b) (x + y) (ea + eb + B / 2 ^ 53) (X + Y)"
proof -
  from a have fa: "js_finite a" and ae: "\<bar>js_val a - x\<bar> \<le> ea" and xX: "\<bar>x\<bar> \<le> X"
    by (simp_all add: approx_def)
  from b have fb: "js_finite b" and be: "\<bar>js_val b - y\<bar> \<le> eb" and yY: "\<bar>y\<bar> \<le> Y"
    by (simp_all add: approx_def)
  let ?s = "js_val a + js_val b"
  have sB: "\<bar>?s\<bar> \<le> B" using ae be xX yY B(1) by linarith
  have B0: "0 \<le> B / 2 ^ 53" using B(2) by simp
  have r: "js_finite (js_add a b) \<and> \<bar>js_val (js_add a b) - ?s\<bar> \<le> B / 2 ^ 53"
  proof (cases "?s = 0")
    case True
    have "js_add a b = NegZero \<or> js_add a b = Num 0"
      using fa fb by (simp add: js_add_finite True)
    then have "js_finite (js_add a b) \<and> js_val (js_add a b) = 0"
      by auto
    then show ?thesis unfolding True using B0 by simp
  next
    case False
    then show ?thesis
      using fa fb to_double_error [OF sB B(2,3)] by (simp add: js_add_finite)
  qed
  with ae be xX yY show ?thesis unfolding approx_def by linarith
qed

lemma approx_sub_const:
  assumes a: "approx a x e X" and B: "X + \<bar>c\<bar> + e \<le> B" "1 \<le> B" "B \<le> 2 ^ 1023"
  shows "approx (js_sub a (Num c)) (x - c) (e + B / 2 ^ 53) (X + \<bar>c\<bar>)"
proof -
  have "approx (js_neg (Num c)) (- c) 0 \<bar>c\<bar>"
    by (simp add: approx_def)
  from approx_add [OF a this, of B] B show ?thesis
    by (simp add: js_sub_def)
qed

section \<open>Facts about the estimator\<close>

lemma constants:
  "BASE_PRICE = 150000" "PRICE_PER_SQFT = 100" "BEDROOM_VALUE = 15000"
  "BATHROOM_VALUE = 20000" "YEAR_MULTIPLIER = 500" "BASE_YEAR = 1950"
  "LOT_SIZE_VALUE = 100000" "GARAGE_VALUE = 10000" "BASEMENT_VALUE = 20000"
  "CENTRAL_AIR_VALUE = 15000" "KITCHEN_QUALITY_MULTIPLIER = 10000"
  by (simp_all add: BASE_PRICE_def PRICE_PER_SQFT_def BEDROOM_VALUE_def
      BATHROOM_VALUE_def YEAR_MULTIPLIER_def BASE_YEAR_def LOT_SIZE_VALUE_def
      GARAGE_VALUE_def BASEMENT_VALUE_def CENTRAL_AIR_VALUE_def
      KITCHEN_QUALITY_MULTIPLIER_def)

lemma subtotal_example: "subtotal example_house = Num 585000"
  by (simp add: subtotal_def example_house_def constants js_mul_int js_add_int js_sub_int)

lemma marketVariation_half: "marketVariation (1 / 2) = Num 1"
proof -
  have "js_mul (Num (1 / 2)) (Num (dbl 0.1)) = Num (real_of_int 7205759403792794 * 2 powi (- 57))"
    by (rule js_mul_round) (simp_all add: dbl_values round_half_even_def)
  moreover have "js_add (Num (dbl 0.95)) (Num (real_of_int 7205759403792794 * 2 powi (- 57)))
      = Num (real_of_int 9007199254740992 * 2 powi (- 53))"
    by (rule js_add_round) (simp_all add: dbl_values round_half_even_def)
  ultimately show ?thesis by (simp add: marketVariation_def)
qed

lemma marketVariation_zero: "marketVariation 0 = Num (dbl 0.95)"
proof -
  have "js_mul (Num 0) (Num (dbl 0.1)) = Num 0"
    by (simp add: js_mul_finite dbl_values)
  moreover have "js_add (Num (dbl 0.95)) (Num 0) = Num (real_of_int 8556839292003942 * 2 powi (- 53))"
    by (rule js_add_round) (simp_all add: dbl_values round_half_even_def)
  ultimately show ?thesis by (simp add: marketVariation_def dbl_values)
qed

lemma marketVariation_three_quarters:
  "marketVariation (3 / 4) = Num (4616189618054758 / 2 ^ 52)"
proof -
  have "js_mul (Num (3 / 4)) (Num (dbl 0.1)) = Num (real_of_int 5404319552844596 * 2 powi (- 56))"
    by (rule js_mul_round) (simp_all add: dbl_values round_half_even_def)
  moreover have "js_add (Num (dbl 0.95)) (Num (real_of_int 5404319552844596 * 2 powi (- 56)))
      = Num (real_of_int 4616189618054758 * 2 powi (- 52))"
    by (rule js_add_round) (simp_all add: dbl_values round_half_even_def)
  ultimately show ?thesis by (simp add: marketVariation_def)
qed


lemma get_factor_Oak_Park: "get_factor ''Oak Park'' = FNumber 1"
  by (simp add: get_factor_def neighborhoodFactors_def dbl_int)

lemma neighborhoodFactor_example: "neighborhoodFactor example_house = FNumber 1"
  by (simp add: neighborhoodFactor_def example_house_def get_factor_Oak_Park)

lemma example_draws:
  "predictPrice example_house 0 = Num 555750"
  "predictPrice example_house (1 / 2) = Num 585000"
  "predictPrice example_house (3 / 4) = Num 599625"
proof -
  have f: "js_mul (subtotal example_house) (factor_to_number (neighborhoodFactor example_house))
      = Num 585000"
    by (simp add: subtotal_example neighborhoodFactor_example js_mul_int)
  have "js_mul (Num 585000) (Num (dbl 0.95)) = Num (real_of_int 4773856149504000 * 2 powi (- 33))"
    by (rule js_mul_round) (simp_all add: dbl_values round_half_even_def)
  then show "predictPrice example_house 0 = Num 555750"
    by (simp add: predictPrice_def predictedPrice_def f marketVariation_zero)
  show "predictPrice example_house (1 / 2) = Num 585000"
    by (simp add: predictPrice_def predictedPrice_def f marketVariation_half js_mul_int)
  have "js_mul (Num 585000) (Num (4616189618054758 / 2 ^ 52))
      = Num (real_of_int 5150739529728000 * 2 powi (- 33))"
    by (rule js_mul_round) (simp_all add: round_half_even_def)
  then show "predictPrice example_house (3 / 4) = Num 599625"
    by (simp add: predictPrice_def predictedPrice_def f marketVariation_three_quarters)
qed


subsection \<open>The neighborhood factor\<close>

text \<open>The factor read for each of the ten keys of the table.\<close>

lemma get_factor_table:
  "get_factor ''Downtown'' = FNumber (dbl 1.2)"
  "get_factor ''Suburban Heights'' = FNumber (dbl 1.1)"
  "get_factor ''Riverside'' = FNumber (dbl 1.15)"
  "get_factor ''West End'' = FNumber (dbl 0.95)"
  "get_factor ''North Hills'' = FNumber (dbl 1.05)"
  "get_factor ''Oak Park'' = FNumber (dbl 1.0)"
  "get_factor ''Maplewood'' = FNumber (dbl 0.9)"
  "get_factor ''Cedar Ridge'' = FNumber (dbl 1.1)"
  "get_factor ''Brookside'' = FNumber (dbl 1.05)"
  "get_factor ''Highland Park'' = FNumber (dbl 1.2)"
  by (simp_all add: get_factor_def neighborhoodFactors_def)

lemma get_factor_range:
  "get_factor k = FNumber v \<Longrightarrow> 0.9 \<le> v \<and> v \<le> 1.2"
  by (auto simp: get_factor_def neighborhoodFactors_def table_values dbl_values split: if_splits)

lemma neighborhoodFactor_range:
  "neighborhoodFactor d = FNumber v \<Longrightarrow> 0.9 \<le> v \<and> v \<le> 1.2"
  using get_factor_range [of "neighborhood d" v]
  by (auto simp: neighborhoodFactor_def Let_def split: if_splits)

lemma neighborhoodFactor_numeric:
  assumes "neighborhood d \<notin> set Object_prototype_keys"
  shows "\<exists>f. neighborhoodFactor d = FNumber f"
  using assms
  by (auto simp: neighborhoodFactor_def get_factor_def Let_def split: option.splits)

lemma subtotal_neighborhood [simp]: "subtotal (d\<lparr>neighborhood := k\<rparr>) = subtotal d"
  by (simp add: subtotal_def)

lemma get_factor_toString: "get_factor ''toString'' = FInherited"
  by (simp add: get_factor_def neighborhoodFactors_def Object_prototype_keys_def)

lemma predictPrice_inherited:
  "get_factor (neighborhood d) = FInherited \<Longrightarrow> predictPrice d r = NaN"
  by (simp add: predictPrice_def predictedPrice_def neighborhoodFactor_def)

lemma neighborhoodFactor_table:
  "map_of neighborhoodFactors (neighborhood d) = Some f \<Longrightarrow> neighborhoodFactor d = FNumber f"
  using get_factor_range [of "neighborhood d" f]
  by (auto simp: neighborhoodFactor_def get_factor_def)

lemma get_factor_unknown:
  assumes "k \<notin> set (map fst neighborhoodFactors)" "k \<notin> set Object_prototype_keys"
  shows "get_factor k = FUndefined"
proof -
  have "map_of neighborhoodFactors k = None"
    by (rule map_of_eq_None_iff [THEN iffD2]) (use assms(1) in simp)
  then show ?thesis
    using assms(2) by (simp add: get_factor_def)
qed

lemma neighborhoodFactor_unknown:
  assumes "neighborhood d \<notin> set (map fst neighborhoodFactors)"
    and "neighborhood d \<notin> set Object_prototype_keys"
  shows "neighborhoodFactor d = FNumber 1"
  using get_factor_unknown [OF assms] by (simp add: neighborhoodFactor_def)

lemma neighborhoodFactor_riverside: "neighborhoodFactor riverside_house = FNumber (dbl 1.15)"
  by (simp add: riverside_house_def neighborhoodFactor_def get_factor_def
      neighborhoodFactors_def table_values)

text \<open>
  A key that is neither in the table nor a property name of \<open>Object.prototype\<close> gets
  the factor 1.0: the estimate is that of the same record in Oak Park.
\<close>

lemma predictPrice_unknown:
  assumes "neighborhood d \<notin> set (map fst neighborhoodFactors)"
    and "neighborhood d \<notin> set Object_prototype_keys"
  shows "predictPrice d r = predictPrice (d\<lparr>neighborhood := ''Oak Park''\<rparr>) r"
proof -
  have "neighborhoodFactor d = FNumber 1"
    using assms by (rule neighborhoodFactor_unknown)
  moreover have "neighborhoodFactor (d\<lparr>neighborhood := ''Oak Park''\<rparr>) = FNumber 1"
    by (simp add: neighborhoodFactor_def get_factor_Oak_Park)
  ultimately show ?thesis
    by (simp add: predictPrice_def predictedPrice_def)
qed

text \<open>
  C9. A neighborhood that is not one of the ten table keys should get the multiplier
  1.0. The code reads \<open>neighborhoodFactors[data.neighborhood] || 1.0\<close> on a plain
  object: the key \<open>toString\<close> is not in the table, but the read finds the function
  \<open>Object.prototype.toString\<close>, which is truthy, so the default is not taken and the
  product is \<open>NaN\<close>. Here the code is evaluated on the example record with that
  neighborhood: the result is \<open>NaN\<close>, where the same record in Oak Park gives 585000.
\<close>

theorem predictPrice_toString_key:
  "''toString'' \<notin> set (map fst neighborhoodFactors) \<and>
   predictPrice toString_house (1 / 2) = NaN \<and>
   predictPrice (toString_house\<lparr>neighborhood := ''Oak Park''\<rparr>) (1 / 2) = Num 585000"
proof -
  have "''toString'' \<notin> set (map fst neighborhoodFactors)"
    by (simp add: neighborhoodFactors_def)
  moreover have "predictPrice toString_house (1 / 2) = NaN"
    by (rule predictPrice_inherited) (simp add: toString_house_def get_factor_toString)
  moreover have "toString_house\<lparr>neighborhood := ''Oak Park''\<rparr> = example_house"
    by (simp add: toString_house_def example_house_def)
  ultimately show ?thesis by (simp add: example_draws)
qed

subsection \<open>The closed form\<close>

text \<open>
  With the market variation pinned to 1.0 by the draw 0.5, a table key gives
  \<open>Math.round(subtotal * factor)\<close> with the factor of the table, and a key that is
  neither in the table nor a property name of \<open>Object.prototype\<close> gives
  \<open>Math.round(subtotal * 1.0)\<close>.
\<close>

lemma predictPrice_pinned_numeric:
  assumes "neighborhoodFactor d = FNumber f"
  shows "predictPrice d (1 / 2) = Math_round (js_mul (subtotal d) (Num f))"
  by (simp add: predictPrice_def predictedPrice_def assms marketVariation_half
      js_mul_one js_double_mul)

lemma subtotal_riverside_half_foot:
  "subtotal (riverside_house\<lparr>squareFootage := 6001 / 2\<rparr>) = Num 685050"
  by (simp add: subtotal_def riverside_house_def example_house_def constants
      js_mul_int js_add_int js_sub_int)

text \<open>
  The products are rounded: for the example record in Riverside with 3000.5 square
  feet and the market variation pinned to 1.0, the program returns 787807, where the
  closed form in exact arithmetic, \<open>685050 * 1.15 = 787807.5\<close>, rounds to 787808.
\<close>

lemma predictPrice_riverside_half_foot:
  "predictPrice (riverside_house\<lparr>squareFootage := 6001 / 2\<rparr>) (1 / 2) = Num 787807"
  "\<lfloor>subtotal_real (riverside_house\<lparr>squareFootage := 6001 / 2\<rparr>) * (115 / 100) + 1 / 2\<rfloor>
      = 787808"
proof -
  let ?d = "riverside_house\<lparr>squareFootage := 6001 / 2\<rparr>"
  have nf: "neighborhoodFactor ?d = FNumber (dbl (23 / 20))"
    using neighborhoodFactor_riverside by (simp add: neighborhoodFactor_def)
  have "js_mul (Num 685050) (Num (dbl (23 / 20)))
      = Num (real_of_int 6767214896087039 * 2 powi (- 33))"
    by (rule js_mul_round) (simp_all add: table_values round_half_even_def)
  then have "predictPrice ?d (1 / 2) = Math_round (Num (real_of_int 6767214896087039 * 2 powi (- 33)))"
    using predictPrice_pinned_numeric [OF nf] by (simp add: subtotal_riverside_half_foot)
  then show "predictPrice ?d (1 / 2) = Num 787807"
    by simp
  show "\<lfloor>subtotal_real ?d * (115 / 100) + 1 / 2\<rfloor> = 787808"
    by (simp add: subtotal_real_def riverside_house_def example_house_def)
qed

text \<open>
  C1. With the market variation pinned to 1.0 (the draw 0.5), the estimate should
  be \<open>round(subtotal * neighborhoodFactor)\<close> for every record, the factor of a
  neighborhood outside the table being 1.0. The example record gives exactly 585000.
  The record that differs from it only by the neighborhood \<open>toString\<close> does not give
  the value of the closed form: \<open>toString\<close> is not a key of the table, so the closed
  form is \<open>Math.round(subtotal * 1.0)\<close>, which is 585000, and the code returns \<open>NaN\<close>,
  because the read \<open>neighborhoodFactors["toString"]\<close> finds a function of
  \<open>Object.prototype\<close>.
\<close>

theorem predictPrice_pinned_toString:
  "marketVariation (1 / 2) = Num 1 \<and>
   predictPrice example_house (1 / 2) = Num 585000 \<and>
   ''toString'' \<notin> set (map fst neighborhoodFactors) \<and>
   subtotal_real toString_house * 1.0 = 585000 \<and>
   Math_round (js_mul (subtotal toString_house) (Num 1.0)) = Num 585000 \<and>
   predictPrice toString_house (1 / 2) = NaN"
proof -
  have "''toString'' \<notin> set (map fst neighborhoodFactors)"
    by (simp add: neighborhoodFactors_def)
  moreover have "predictPrice toString_house (1 / 2) = NaN"
    by (rule predictPrice_inherited) (simp add: toString_house_def get_factor_toString)
  moreover have "Math_round (js_mul (subtotal toString_house) (Num 1.0)) = Num 585000"
    by (simp add: toString_house_def subtotal_example js_mul_int)
  moreover have "subtotal_real toString_house * 1.0 = 585000"
    by (simp add: subtotal_real_def toString_house_def example_house_def)
  ultimately show ?thesis by (simp add: marketVariation_half example_draws)
qed

subsection \<open>The distance to the closed form in exact arithmetic\<close>

lemma marketVariation_range:
  assumes r: "0 \<le> r" "r \<le> 1"
  shows "js_finite (marketVariation r) \<and> dbl 0.95 \<le> js_val (marketVariation r) \<and>
    js_val (marketVariation r) \<le> dbl 1.05"
proof -
  let ?t = "dbl (1 / 10)" and ?b = "dbl (19 / 20)"
  have t0: "0 < ?t" and b0: "0 < ?b" by (simp_all add: dbl_values)
  let ?y = "js_mul (Num r) (Num ?t)"
  have y: "js_finite ?y \<and> 0 \<le> js_val ?y \<and> js_val ?y \<le> ?t"
  proof (cases "r * ?t = 0")
    case True
    then have "?y = Num 0" using r t0 by (simp add: js_mul_finite not_less)
    then show ?thesis using t0 by simp
  next
    case False
    then have yd: "?y = to_double (r * ?t)" by (simp add: js_mul_finite)
    have p0: "0 \<le> r * ?t" using r t0 by simp
    have p1: "r * ?t \<le> ?t" using r t0 by (simp add: mult_left_le_one_le)
    have up: "js_finite (to_double (r * ?t)) \<and> js_val (to_double (r * ?t)) \<le> js_val (to_double ?t)"
      by (rule to_double_mono [OF p0 p1]) (simp add: to_double_literals)
    then have "js_finite (to_double 0) \<and> js_val (to_double 0) \<le> js_val (to_double (r * ?t))"
      by (intro to_double_mono [OF _ p0]) simp_all
    then show ?thesis using up by (simp add: yd to_double_literals to_double_int)
  qed
  let ?q = "?b + js_val ?y"
  have q0: "?q \<noteq> 0" using y b0 by linarith
  have md: "marketVariation r = to_double ?q"
    using y q0 by (simp add: marketVariation_def js_add_finite)
  have up: "js_finite (to_double ?q) \<and> js_val (to_double ?q) \<le> js_val (to_double (?b + ?t))"
    by (rule to_double_mono) (use y b0 in \<open>simp_all add: to_double_literals\<close>)
  then have "js_finite (to_double ?b) \<and> js_val (to_double ?b) \<le> js_val (to_double ?q)"
    by (intro to_double_mono) (use y b0 in simp_all)
  with up show ?thesis by (simp add: md to_double_literals)
qed

lemma subtotal_error:
  assumes b: "in_bounds d"
  shows "approx (subtotal d) (subtotal_real d) (18 / 262144) 15561170000"
proof -
  from b have f: "\<bar>squareFootage d\<bar> \<le> 100000" "\<bar>bedrooms d\<bar> \<le> 100000"
    "\<bar>bathrooms d\<bar> \<le> 100000" "\<bar>yearBuilt d\<bar> \<le> 100000" "\<bar>lotSize d\<bar> \<le> 100000"
    "\<bar>garage d\<bar> \<le> 100000" "\<bar>kitchenQuality d\<bar> \<le> 100000"
    by (simp_all add: in_bounds_def)
  have t_sq: "approx (js_mul (Num (squareFootage d)) (Num 100)) (squareFootage d * 100) (1 / 262144) 10000000"
    by (rule approx_weaken, rule approx_mul_const [where B = 34359738368 and C = 100, OF approx_Num [OF f(1)]]) simp_all
  have t_bed: "approx (js_mul (Num (bedrooms d)) (Num 15000)) (bedrooms d * 15000) (1 / 262144) 1500000000"
    by (rule approx_weaken, rule approx_mul_const [where B = 34359738368 and C = 15000, OF approx_Num [OF f(2)]]) simp_all
  have t_bath: "approx (js_mul (Num (bathrooms d)) (Num 20000)) (bathrooms d * 20000) (1 / 262144) 2000000000"
    by (rule approx_weaken, rule approx_mul_const [where B = 34359738368 and C = 20000, OF approx_Num [OF f(3)]]) simp_all
  have u_year: "approx (js_sub (Num (yearBuilt d)) (Num 1950)) (yearBuilt d - 1950) (1 / 68719476736) 101950"
    by (rule approx_weaken, rule approx_sub_const [where B = 131072, OF approx_Num [OF f(4)]]) simp_all
  have t_year: "approx (js_mul (js_sub (Num (yearBuilt d)) (Num 1950)) (Num 500)) ((yearBuilt d - 1950) * 500) (2 / 262144) 50975000"
    by (rule approx_weaken, rule approx_mul_const [where B = 34359738368 and C = 500, OF u_year]) simp_all
  have t_lot: "approx (js_mul (Num (lotSize d)) (Num 100000)) (lotSize d * 100000) (1 / 262144) 10000000000"
    by (rule approx_weaken, rule approx_mul_const [where B = 34359738368 and C = 100000, OF approx_Num [OF f(5)]]) simp_all
  have t_gar: "approx (js_mul (Num (garage d)) (Num 10000)) (garage d * 10000) (1 / 262144) 1000000000"
    by (rule approx_weaken, rule approx_mul_const [where B = 34359738368 and C = 10000, OF approx_Num [OF f(6)]]) simp_all
  have t_bas: "approx (Num (if basement d then 20000 else 0)) ((if basement d then 20000 else 0)) 0 20000"
    by (rule approx_Num) simp
  have t_ca: "approx (Num (if centralAir d then 15000 else 0)) ((if centralAir d then 15000 else 0)) 0 15000"
    by (rule approx_Num) simp
  have u_kq: "approx (js_sub (Num (kitchenQuality d)) (Num 1)) (kitchenQuality d - 1) (1 / 68719476736) 100001"
    by (rule approx_weaken, rule approx_sub_const [where B = 131072, OF approx_Num [OF f(7)]]) simp_all
  have t_kq: "approx (js_mul (js_sub (Num (kitchenQuality d)) (Num 1)) (Num 10000)) ((kitchenQuality d - 1) * 10000) (2 / 262144) 1000010000"
    by (rule approx_weaken, rule approx_mul_const [where B = 34359738368 and C = 10000, OF u_kq]) simp_all
  have s_0: "approx (Num 150000) 150000 0 150000"
    by (rule approx_Num) simp
  have s_1: "approx (js_add (Num 150000) (js_mul (Num (squareFootage d)) (Num 100))) (150000 + squareFootage d * 100) (2 / 262144) 10150000"
    by (rule approx_weaken, rule approx_add [where B = 34359738368, OF s_0 t_sq]) simp_all
  have s_2: "approx (js_add (js_add (Num 150000) (js_mul (Num (squareFootage d)) (Num 100))) (js_mul (Num (bedrooms d)) (Num 15000))) (150000 + squareFootage d * 100 + bedrooms d * 15000) (4 / 262144) 1510150000"
    by (rule approx_weaken, rule approx_add [where B = 34359738368, OF s_1 t_bed]) simp_all
  have s_3: "approx (js_add (js_add (js_add (Num 150000) (js_mul (Num (squareFootage d)) (Num 100))) (js_mul (Num (bedrooms d)) (Num 15000))) (js_mul (Num (bathrooms d)) (Num 20000))) (150000 + squareFootage d * 100 + bedrooms d * 15000 + bathrooms d * 20000) (6 / 262144) 3510150000"
    by (rule approx_weaken, rule approx_add [where B = 34359738368, OF s_2 t_bath]) simp_all
  have s_4: "approx (js_add (js_add (js_add (js_add (Num 150000) (js_mul (Num (squareFootage d)) (Num 100))) (js_mul (Num (bedrooms d)) (Num 15000))) (js_mul (Num (bathrooms d)) (Num 20000))) (js_mul (js_sub (Num (yearBuilt d)) (Num 1950)) (Num 500))) (150000 + squareFootage d * 100 + bedrooms d * 15000 + bathrooms d * 20000 + (yearBuilt d - 1950) * 500) (9 / 262144) 3561125000"
    by (rule approx_weaken, rule approx_add [where B = 34359738368, OF s_3 t_year]) simp_all
  have s_5: "approx (js_add (js_add (js_add (js_add (js_add (Num 150000) (js_mul (Num (squareFootage d)) (Num 100))) (js_mul (Num (bedrooms d)) (Num 15000))) (js_mul (Num (bathrooms d)) (Num 20000))) (js_mul (js_sub (Num (yearBuilt d)) (Num 1950)) (Num 500))) (js_mul (Num (lotSize d)) (Num 100000))) (150000 + squareFootage d * 100 + bedrooms d * 15000 + bathrooms d * 20000 + (yearBuilt d - 1950) * 500 + lotSize d * 100000) (11 / 262144) 13561125000"
    by (rule approx_weaken, rule approx_add [where B = 34359738368, OF s_4 t_lot]) simp_all
  have s_6: "approx (js_add (js_add (js_add (js_add (js_add (js_add (Num 150000) (js_mul (Num (squareFootage d)) (Num 100))) (js_mul (Num (bedrooms d)) (Num 15000))) (js_mul (Num (bathrooms d)) (Num 20000))) (js_mul (js_sub (Num (yearBuilt d)) (Num 1950)) (Num 500))) (js_mul (Num (lotSize d)) (Num 100000))) (js_mul (Num (garage d)) (Num 10000))) (150000 + squareFootage d * 100 + bedrooms d * 15000 + bathrooms d * 20000 + (yearBuilt d - 1950) * 500 + lotSize d * 100000 + garage d * 10000) (13 / 262144) 14561125000"
    by (rule approx_weaken, rule approx_add [where B = 34359738368, OF s_5 t_gar]) simp_all
  have s_7: "approx (js_add (js_add (js_add (js_add (js_add (js_add (js_add (Num 150000) (js_mul (Num (squareFootage d)) (Num 100))) (js_mul (Num (bedrooms d)) (Num 15000))) (js_mul (Num (bathrooms d)) (Num 20000))) (js_mul (js_sub (Num (yearBuilt d)) (Num 1950)) (Num 500))) (js_mul (Num (lotSize d)) (Num 100000))) (js_mul (Num (garage d)) (Num 10000))) (Num (if basement d then 20000 else 0))) (150000 + squareFootage d * 100 + bedrooms d * 15000 + bathrooms d * 20000 + (yearBuilt d - 1950) * 500 + lotSize d * 100000 + garage d * 10000 + (if basement d then 20000 else 0)) (14 / 262144) 14561145000"
    by (rule approx_weaken, rule approx_add [where B = 34359738368, OF s_6 t_bas]) simp_all
  have s_8: "approx (js_add (js_add (js_add (js_add (js_add (js_add (js_add (js_add (Num 150000) (js_mul (Num (squareFootage d)) (Num 100))) (js_mul (Num (bedrooms d)) (Num 15000))) (js_mul (Num (bathrooms d)) (Num 20000))) (js_mul (js_sub (Num (yearBuilt d)) (Num 1950)) (Num 500))) (js_mul (Num (lotSize d)) (Num 100000))) (js_mul (Num (garage d)) (Num 10000))) (Num (if basement d then 20000 else 0))) (Num (if centralAir d then 15000 else 0))) (150000 + squareFootage d * 100 + bedrooms d * 15000 + bathrooms d * 20000 + (yearBuilt d - 1950) * 500 + lotSize d * 100000 + garage d * 10000 + (if basement d then 20000 else 0) + (if centralAir d then 15000 else 0)) (15 / 262144) 14561160000"
    by (rule approx_weaken, rule approx_add [where B = 34359738368, OF s_7 t_ca]) simp_all
  have s_9: "approx (js_add (js_add (js_add (js_add (js_add (js_add (js_add (js_add (js_add (Num 150000) (js_mul (Num (squareFootage d)) (Num 100))) (js_mul (Num (bedrooms d)) (Num 15000))) (js_mul (Num (bathrooms d)) (Num 20000))) (js_mul (js_sub (Num (yearBuilt d)) (Num 1950)) (Num 500))) (js_mul (Num (lotSize d)) (Num 100000))) (js_mul (Num (garage d)) (Num 10000))) (Num (if basement d then 20000 else 0))) (Num (if centralAir d then 15000 else 0))) (js_mul (js_sub (Num (kitchenQuality d)) (Num 1)) (Num 10000))) (150000 + squareFootage d * 100 + bedrooms d * 15000 + bathrooms d * 20000 + (yearBuilt d - 1950) * 500 + lotSize d * 100000 + garage d * 10000 + (if basement d then 20000 else 0) + (if centralAir d then 15000 else 0) + (kitchenQuality d - 1) * 10000) (18 / 262144) 15561170000"
    by (rule approx_weaken, rule approx_add [where B = 34359738368, OF s_8 t_kq]) simp_all
  have "subtotal d = js_add (js_add (js_add (js_add (js_add (js_add (js_add (js_add (js_add (Num 150000) (js_mul (Num (squareFootage d)) (Num 100))) (js_mul (Num (bedrooms d)) (Num 15000))) (js_mul (Num (bathrooms d)) (Num 20000))) (js_mul (js_sub (Num (yearBuilt d)) (Num 1950)) (Num 500))) (js_mul (Num (lotSize d)) (Num 100000))) (js_mul (Num (garage d)) (Num 10000))) (Num (if basement d then 20000 else 0))) (Num (if centralAir d then 15000 else 0))) (js_mul (js_sub (Num (kitchenQuality d)) (Num 1)) (Num 10000))"
    by (simp add: subtotal_def constants)
  moreover have "subtotal_real d = 150000 + squareFootage d * 100 + bedrooms d * 15000 + bathrooms d * 20000 + (yearBuilt d - 1950) * 500 + lotSize d * 100000 + garage d * 10000 + (if basement d then 20000 else 0) + (if centralAir d then 15000 else 0) + (kitchenQuality d - 1) * 10000"
    by (simp add: subtotal_real_def)
  ultimately show ?thesis using s_9 by simp
qed

lemma predictedPrice_error:
  assumes b: "in_bounds d" and f: "neighborhoodFactor d = FNumber f" and r: "0 \<le> r" "r \<le> 1"
  shows "js_finite (predictedPrice d r) \<and>
    \<bar>js_val (predictedPrice d r) - subtotal_real d * f * js_val (marketVariation r)\<bar>
      \<le> 27 / 262144"
proof -
  let ?m = "js_val (marketVariation r)"
  from marketVariation_range [OF r]
  have mf: "js_finite (marketVariation r)" and m1: "dbl 0.95 \<le> ?m" and m2: "?m \<le> dbl 1.05"
    by simp_all
  have mpos: "0 < ?m" using m1 by (simp add: dbl_values)
  then have mN: "marketVariation r = Num ?m"
    using mf by (intro js_finite_Num) simp_all
  have mC: "\<bar>?m\<bar> \<le> 11 / 10" using mpos m2 by (simp add: dbl_values)
  have fC: "\<bar>f\<bar> \<le> 6 / 5" using neighborhoodFactor_range [OF f] by simp
  have p1: "approx (js_mul (subtotal d) (Num f)) (subtotal_real d * f) (23 / 262144) 18673404000"
    by (rule approx_weaken,
        rule approx_mul_const [where B = 34359738368, OF subtotal_error [OF b] fC]) simp_all
  have p2: "approx (js_mul (js_mul (subtotal d) (Num f)) (Num ?m)) (subtotal_real d * f * ?m)
      (27 / 262144) 20540744400"
    by (rule approx_weaken,
        rule approx_mul_const [where B = 34359738368, OF p1 mC]) simp_all
  have "predictedPrice d r = js_mul (js_mul (subtotal d) (Num f)) (Num ?m)"
    unfolding predictedPrice_def Let_def f factor_to_number.simps mN [symmetric] ..
  with p2 show ?thesis by (simp add: approx_def)
qed

subsection \<open>Sign of the estimate\<close>

lemma subtotal_real_valid:
  assumes "0 < squareFootage d" "0 < bedrooms d" "0 < bathrooms d" "1900 \<le> yearBuilt d"
    "0 < lotSize d" "0 \<le> garage d" "1 \<le> kitchenQuality d"
  shows "125000 \<le> subtotal_real d"
  using assms by (simp add: subtotal_real_def)

text \<open>
  For a valid record whose numeric fields are at most 100000 in magnitude and whose
  neighborhood is not a property name of \<open>Object.prototype\<close>, and a draw in
  \<open>[0, 1]\<close>, the estimate is a non-negative integer.
\<close>

lemma predictPrice_nonneg:
  assumes v: "0 < squareFootage d" "0 < bedrooms d" "0 < bathrooms d" "1900 \<le> yearBuilt d"
    "0 < lotSize d" "0 \<le> garage d" "1 \<le> kitchenQuality d"
    and b: "in_bounds d"
    and r: "0 \<le> r" "r \<le> 1"
    and k: "neighborhood d \<notin> set Object_prototype_keys"
  shows "\<exists>n. 0 \<le> n \<and> predictPrice d r = Num (of_int n)"
proof -
  obtain f where f: "neighborhoodFactor d = FNumber f"
    using neighborhoodFactor_numeric [OF k] by blast
  have f9: "9 / 10 \<le> f"
    using neighborhoodFactor_range [OF f] by simp
  let ?m = "js_val (marketVariation r)"
  let ?p = "js_val (predictedPrice d r)"
  have m9: "9 / 10 \<le> ?m"
    using marketVariation_range [OF r] by (simp add: dbl_values)
  have s: "125000 \<le> subtotal_real d"
    using v by (rule subtotal_real_valid)
  have sf: "125000 * (9 / 10) \<le> subtotal_real d * f"
    using s f9 by (intro mult_mono) simp_all
  have "125000 * (9 / 10) * (9 / 10) \<le> subtotal_real d * f * ?m"
  proof (rule mult_mono)
    show "125000 * (9 / 10) \<le> subtotal_real d * f" by (rule sf)
    show "9 / 10 \<le> ?m" by (rule m9)
    show "0 \<le> subtotal_real d * f" using sf by simp
    show "(0 :: real) \<le> 9 / 10" by simp
  qed
  then have lower: "101250 \<le> subtotal_real d * f * ?m"
    by simp
  from predictedPrice_error [OF b f r]
  have fin: "js_finite (predictedPrice d r)"
    and err: "\<bar>?p - subtotal_real d * f * ?m\<bar> \<le> 27 / 262144"
    by simp_all
  have pos: "101249 \<le> ?p"
    using lower err unfolding abs_le_iff by linarith
  then have "predictedPrice d r = Num ?p"
    using fin by (intro js_finite_Num) simp_all
  then have "predictPrice d r = Math_round (Num ?p)"
    by (simp add: predictPrice_def)
  also have "\<dots> = Num (of_int \<lfloor>?p + 1 / 2\<rfloor>)"
    using pos by simp
  finally have "predictPrice d r = Num (of_int \<lfloor>?p + 1 / 2\<rfloor>)" .
  moreover have "0 \<le> \<lfloor>?p + 1 / 2\<rfloor>"
    using pos by simp
  ultimately show ?thesis by blast
qed

text \<open>
  C6. Every valid record should give a non-negative integer, for every draw. The
  record below is valid: its numeric fields are those of the example and its
  neighborhood is a string. The code returns \<open>NaN\<close> on it for every draw, because the
  neighborhood \<open>toString\<close> names a property of \<open>Object.prototype\<close>.
\<close>

theorem predictPrice_valid_record_NaN:
  "0 < squareFootage toString_house \<and> 0 < bathrooms toString_house \<and>
   0 < lotSize toString_house \<and> bedrooms toString_house = 3 \<and>
   garage toString_house = 2 \<and> yearBuilt toString_house = 2000 \<and>
   kitchenQuality toString_house = 3 \<and>
   predictPrice toString_house random = NaN"
proof -
  have "predictPrice toString_house random = NaN"
    by (rule predictPrice_inherited) (simp add: toString_house_def get_factor_toString)
  then show ?thesis
    by (simp add: toString_house_def example_house_def)
qed

subsection \<open>Linearity\<close>

lemma subtotal_real_updates:
  "subtotal_real (d\<lparr>squareFootage := squareFootage d + \<delta>\<rparr>) = subtotal_real d + \<delta> * 100"
  "subtotal_real (d\<lparr>bedrooms := bedrooms d + \<delta>\<rparr>) = subtotal_real d + \<delta> * 15000"
  "subtotal_real (d\<lparr>bathrooms := bathrooms d + \<delta>\<rparr>) = subtotal_real d + \<delta> * 20000"
  "subtotal_real (d\<lparr>yearBuilt := yearBuilt d + \<delta>\<rparr>) = subtotal_real d + \<delta> * 500"
  "subtotal_real (d\<lparr>lotSize := lotSize d + \<delta>\<rparr>) = subtotal_real d + \<delta> * 100000"
  "subtotal_real (d\<lparr>garage := garage d + \<delta>\<rparr>) = subtotal_real d + \<delta> * 10000"
  by (simp_all add: subtotal_real_def algebra_simps)

lemma neighborhoodFactor_updates [simp]:
  "neighborhoodFactor (d\<lparr>squareFootage := a\<rparr>) = neighborhoodFactor d"
  "neighborhoodFactor (d\<lparr>bedrooms := a\<rparr>) = neighborhoodFactor d"
  "neighborhoodFactor (d\<lparr>bathrooms := a\<rparr>) = neighborhoodFactor d"
  "neighborhoodFactor (d\<lparr>yearBuilt := a\<rparr>) = neighborhoodFactor d"
  "neighborhoodFactor (d\<lparr>lotSize := a\<rparr>) = neighborhoodFactor d"
  "neighborhoodFactor (d\<lparr>garage := a\<rparr>) = neighborhoodFactor d"
  by (simp_all add: neighborhoodFactor_def)

lemma price_change:
  assumes d: "in_bounds d" and d': "in_bounds d'"
    and f: "neighborhoodFactor d = FNumber f" and f': "neighborhoodFactor d' = FNumber f"
    and r: "0 \<le> r" "r < 1"
    and s: "subtotal_real d' = subtotal_real d + \<delta> * c"
  shows "js_finite (predictedPrice d' r) \<and>
    \<bar>js_val (predictedPrice d' r) - js_val (predictedPrice d r) -
       \<delta> * c * f * js_val (marketVariation r)\<bar> \<le> 1 / 1000"
proof -
  let ?m = "js_val (marketVariation r)"
  have r1: "r \<le> 1" using r by simp
  from predictedPrice_error [OF d f r(1) r1]
  have 1: "\<bar>js_val (predictedPrice d r) - subtotal_real d * f * ?m\<bar> \<le> 27 / 262144"
    by simp
  from predictedPrice_error [OF d' f' r(1) r1]
  have 2: "js_finite (predictedPrice d' r)"
    "\<bar>js_val (predictedPrice d' r) - subtotal_real d' * f * ?m\<bar> \<le> 27 / 262144"
    by simp_all
  define A where "A = subtotal_real d * f * ?m"
  define D where "D = \<delta> * c * f * ?m"
  have "subtotal_real d' * f * ?m = A + D"
    unfolding s A_def D_def by (simp add: algebra_simps)
  with 1 2(2) have "\<bar>js_val (predictedPrice d r) - A\<bar> \<le> 27 / 262144"
    "\<bar>js_val (predictedPrice d' r) - (A + D)\<bar> \<le> 27 / 262144"
    by (simp_all add: A_def)
  then have "\<bar>js_val (predictedPrice d' r) - js_val (predictedPrice d r) - D\<bar> \<le> 1 / 1000"
    by linarith
  with 2(1) show ?thesis by (simp add: D_def)
qed

text \<open>
  C7, as stated: a change of \<open>\<delta>\<close> in a field changes the price before rounding by
  \<open>\<delta>\<close> times the coefficient times the neighborhood factor times the market
  variation. For the example record in Riverside (factor 1.15) and the market
  variation 1.0, adding 1000 square feet takes the price before rounding from
  672750 to \<open>6766720974847999 / 2^33\<close>, which is 787749.9999999999 and not 787750: the
  difference is not \<open>1000 * 100 * 1.15 * 1.0\<close>, neither as a real number nor when the
  product and the sum are computed in floating point.
\<close>

theorem predictedPrice_not_linear:
  "predictedPrice riverside_house (1 / 2) = Num 672750 \<and>
   predictedPrice (riverside_house\<lparr>squareFootage := squareFootage riverside_house + 1000\<rparr>)
     (1 / 2) = Num (6766720974847999 / 2 ^ 33) \<and>
   neighborhoodFactor riverside_house = FNumber (dbl 1.15) \<and>
   marketVariation (1 / 2) = Num 1 \<and>
   6766720974847999 / 2 ^ 33 - 672750 \<noteq> 1000 * 100 * dbl 1.15 * 1 \<and>
   js_add (Num 672750) (js_mul (js_mul (Num (1000 * 100)) (Num (dbl 1.15))) (Num 1))
     \<noteq> Num (6766720974847999 / 2 ^ 33)"
proof -
  have nf: "neighborhoodFactor riverside_house = FNumber (dbl 1.15)"
    by (simp add: riverside_house_def neighborhoodFactor_def get_factor_def
        neighborhoodFactors_def table_values)
  have s: "subtotal riverside_house = Num 585000"
    by (simp add: riverside_house_def subtotal_example)
  have s': "subtotal (riverside_house\<lparr>squareFootage := squareFootage riverside_house + 1000\<rparr>)
      = Num 685000"
    by (simp add: riverside_house_def subtotal_def example_house_def constants
        js_mul_int js_add_int js_sub_int)
  have a: "js_mul (Num 585000) (Num (dbl 1.15)) = Num (real_of_int 5778878496768000 * 2 powi (- 33))"
    by (rule js_mul_round) (simp_all add: table_values round_half_even_def)
  have b: "js_mul (Num 685000) (Num (dbl 1.15)) = Num (real_of_int 6766720974847999 * 2 powi (- 33))"
    by (rule js_mul_round) (simp_all add: table_values round_half_even_def)
  have c: "js_mul (Num 100000) (Num (dbl 1.15)) = Num (real_of_int 7902739824639999 * 2 powi (- 36))"
    by (rule js_mul_round) (simp_all add: table_values round_half_even_def)
  have e: "js_add (Num 672750) (Num (7902739824639999 / 2 ^ 36))
      = Num (real_of_int 6766720974848000 * 2 powi (- 33))"
    by (rule js_add_round) (simp_all add: round_half_even_def)
  have one: "js_mul (js_mul x y) (Num 1) = js_mul x y" for x y
    by (rule js_mul_one) (rule js_double_mul)
  have "predictedPrice riverside_house (1 / 2) = Num 672750"
    using a by (simp add: predictedPrice_def nf s marketVariation_half one)
  moreover have "predictedPrice
      (riverside_house\<lparr>squareFootage := squareFootage riverside_house + 1000\<rparr>) (1 / 2)
      = Num (6766720974847999 / 2 ^ 33)"
    using b by (simp add: predictedPrice_def nf s' marketVariation_half one)
  moreover have "js_add (Num 672750) (js_mul (js_mul (Num (1000 * 100)) (Num (dbl 1.15))) (Num 1))
     \<noteq> Num (6766720974847999 / 2 ^ 33)"
  proof -
    have "js_mul (js_mul (Num (1000 * 100)) (Num (dbl 1.15))) (Num 1)
        = js_mul (Num (1000 * 100)) (Num (dbl 1.15))"
      by (rule one)
    also have "\<dots> = Num (7902739824639999 / 2 ^ 36)"
      using c by simp
    finally show ?thesis using e by simp
  qed
  moreover have "6766720974847999 / 2 ^ 33 - 672750 \<noteq> 1000 * 100 * dbl 1.15 * (1::real)"
    by (simp add: table_values)
  ultimately show ?thesis using nf by (simp add: marketVariation_half)
qed

text \<open>
  C7, amended. With the other fields, the neighborhood and the draw held fixed,
  adding \<open>\<delta>\<close> to one of squareFootage, bedrooms, bathrooms, yearBuilt, lotSize and
  garage changes the price before rounding by \<open>\<delta>\<close> times the field's coefficient
  (100, 15000, 20000, 500, 100000, 10000) times the neighborhood factor times the
  market variation, up to the rounding error of the floating-point operations: for
  records whose numeric fields are at most 100000 in magnitude, before and after the
  change, and whose neighborhood factor is a number, both prices are finite and the
  change is within 0.001 of that product.
\<close>

theorem predictedPrice_nearly_linear:
  "in_bounds d \<and> neighborhoodFactor d = FNumber f \<and> 0 \<le> r \<and> r < 1 \<longrightarrow>
   (in_bounds (d\<lparr>squareFootage := squareFootage d + \<delta>\<rparr>) \<longrightarrow>
      js_finite (predictedPrice (d\<lparr>squareFootage := squareFootage d + \<delta>\<rparr>) r) \<and>
      \<bar>js_val (predictedPrice (d\<lparr>squareFootage := squareFootage d + \<delta>\<rparr>) r) -
         js_val (predictedPrice d r) - \<delta> * 100 * f * js_val (marketVariation r)\<bar>
        \<le> 1 / 1000) \<and>
   (in_bounds (d\<lparr>bedrooms := bedrooms d + \<delta>\<rparr>) \<longrightarrow>
      js_finite (predictedPrice (d\<lparr>bedrooms := bedrooms d + \<delta>\<rparr>) r) \<and>
      \<bar>js_val (predictedPrice (d\<lparr>bedrooms := bedrooms d + \<delta>\<rparr>) r) -
         js_val (predictedPrice d r) - \<delta> * 15000 * f * js_val (marketVariation r)\<bar>
        \<le> 1 / 1000) \<and>
   (in_bounds (d\<lparr>bathrooms := bathrooms d + \<delta>\<rparr>) \<longrightarrow>
      js_finite (predictedPrice (d\<lparr>bathrooms := bathrooms d + \<delta>\<rparr>) r) \<and>
      \<bar>js_val (predictedPrice (d\<lparr>bathrooms := bathrooms d + \<delta>\<rparr>) r) -
         js_val (predictedPrice d r) - \<delta> * 20000 * f * js_val (marketVariation r)\<bar>
        \<le> 1 / 1000) \<and>
   (in_bounds (d\<lparr>yearBuilt := yearBuilt d + \<delta>\<rparr>) \<longrightarrow>
      js_finite (predictedPrice (d\<lparr>yearBuilt := yearBuilt d + \<delta>\<rparr>) r) \<and>
      \<bar>js_val (predictedPrice (d\<lparr>yearBuilt := yearBuilt d + \<delta>\<rparr>) r) -
         js_val (predictedPrice d r) - \<delta> * 500 * f * js_val (marketVariation r)\<bar>
        \<le> 1 / 1000) \<and>
   (in_bounds (d\<lparr>lotSize := lotSize d + \<delta>\<rparr>) \<longrightarrow>
      js_finite (predictedPrice (d\<lparr>lotSize := lotSize d + \<delta>\<rparr>) r) \<and>
      \<bar>js_val (predictedPrice (d\<lparr>lotSize := lotSize d + \<delta>\<rparr>) r) -
         js_val (predictedPrice d r) - \<delta> * 100000 * f * js_val (marketVariation r)\<bar>
        \<le> 1 / 1000) \<and>
   (in_bounds (d\<lparr>garage := garage d + \<delta>\<rparr>) \<longrightarrow>
      js_finite (predictedPrice (d\<lparr>garage := garage d + \<delta>\<rparr>) r) \<and>
      \<bar>js_val (predictedPrice (d\<lparr>garage := garage d + \<delta>\<rparr>) r) -
         js_val (predictedPrice d r) - \<delta> * 10000 * f * js_val (marketVariation r)\<bar>
        \<le> 1 / 1000)"
proof (intro impI, elim conjE, intro conjI impI)
  assume d: "in_bounds d" and f: "neighborhoodFactor d = FNumber f" and r: "0 \<le> r" "r < 1"
  note pc = price_change [OF d _ f _ r]
  { assume "in_bounds (d\<lparr>squareFootage := squareFootage d + \<delta>\<rparr>)"
    from pc [OF this _ subtotal_real_updates(1)] f
    show "js_finite (predictedPrice (d\<lparr>squareFootage := squareFootage d + \<delta>\<rparr>) r)"
      "\<bar>js_val (predictedPrice (d\<lparr>squareFootage := squareFootage d + \<delta>\<rparr>) r) -
         js_val (predictedPrice d r) - \<delta> * 100 * f * js_val (marketVariation r)\<bar>
        \<le> 1 / 1000" by simp_all }
  { assume "in_bounds (d\<lparr>bedrooms := bedrooms d + \<delta>\<rparr>)"
    from pc [OF this _ subtotal_real_updates(2)] f
    show "js_finite (predictedPrice (d\<lparr>bedrooms := bedrooms d + \<delta>\<rparr>) r)"
      "\<bar>js_val (predictedPrice (d\<lparr>bedrooms := bedrooms d + \<delta>\<rparr>) r) -
         js_val (predictedPrice d r) - \<delta> * 15000 * f * js_val (marketVariation r)\<bar>
        \<le> 1 / 1000" by simp_all }
  { assume "in_bounds (d\<lparr>bathrooms := bathrooms d + \<delta>\<rparr>)"
    from pc [OF this _ subtotal_real_updates(3)] f
    show "js_finite (predictedPrice (d\<lparr>bathrooms := bathrooms d + \<delta>\<rparr>) r)"
      "\<bar>js_val (predictedPrice (d\<lparr>bathrooms := bathrooms d + \<delta>\<rparr>) r) -
         js_val (predictedPrice d r) - \<delta> * 20000 * f * js_val (marketVariation r)\<bar>
        \<le> 1 / 1000" by simp_all }
  { assume "in_bounds (d\<lparr>yearBuilt := yearBuilt d + \<delta>\<rparr>)"
    from pc [OF this _ subtotal_real_updates(4)] f
    show "js_finite (predictedPrice (d\<lparr>yearBuilt := yearBuilt d + \<delta>\<rparr>) r)"
      "\<bar>js_val (predictedPrice (d\<lparr>yearBuilt := yearBuilt d + \<delta>\<rparr>) r) -
         js_val (predictedPrice d r) - \<delta> * 500 * f * js_val (marketVariation r)\<bar>
        \<le> 1 / 1000" by simp_all }
  { assume "in_bounds (d\<lparr>lotSize := lotSize d + \<delta>\<rparr>)"
    from pc [OF this _ subtotal_real_updates(5)] f
    show "js_finite (predictedPrice (d\<lparr>lotSize := lotSize d + \<delta>\<rparr>) r)"
      "\<bar>js_val (predictedPrice (d\<lparr>lotSize := lotSize d + \<delta>\<rparr>) r) -
         js_val (predictedPrice d r) - \<delta> * 100000 * f * js_val (marketVariation r)\<bar>
        \<le> 1 / 1000" by simp_all }
  { assume "in_bounds (d\<lparr>garage := garage d + \<delta>\<rparr>)"
    from pc [OF this _ subtotal_real_updates(6)] f
    show "js_finite (predictedPrice (d\<lparr>garage := garage d + \<delta>\<rparr>) r)"
      "\<bar>js_val (predictedPrice (d\<lparr>garage := garage d + \<delta>\<rparr>) r) -
         js_val (predictedPrice d r) - \<delta> * 10000 * f * js_val (marketVariation r)\<bar>
        \<le> 1 / 1000" by simp_all }
qed

lemma in_bounds_riverside:
  "in_bounds riverside_house"
  "in_bounds (riverside_house\<lparr>squareFootage := squareFootage riverside_house + 1\<rparr>)"
  "in_bounds (riverside_house\<lparr>bedrooms := bedrooms riverside_house + 1\<rparr>)"
  "in_bounds (riverside_house\<lparr>bathrooms := bathrooms riverside_house + 1\<rparr>)"
  "in_bounds (riverside_house\<lparr>yearBuilt := yearBuilt riverside_house + 1\<rparr>)"
  "in_bounds (riverside_house\<lparr>lotSize := lotSize riverside_house + 1\<rparr>)"
  "in_bounds (riverside_house\<lparr>garage := garage riverside_house + 1\<rparr>)"
  by (simp_all add: in_bounds_def riverside_house_def example_house_def)

theorem predictedPrice_nearly_linear_witness:
  "in_bounds riverside_house \<and>
   neighborhoodFactor riverside_house = FNumber (dbl 1.15) \<and>
   in_bounds (riverside_house\<lparr>squareFootage := squareFootage riverside_house + 1\<rparr>) \<and>
   \<bar>js_val (predictedPrice
        (riverside_house\<lparr>squareFootage := squareFootage riverside_house + 1\<rparr>) (1 / 2)) -
      js_val (predictedPrice riverside_house (1 / 2)) -
      1 * 100 * dbl 1.15 * js_val (marketVariation (1 / 2))\<bar> \<le> 1 / 1000 \<and>
   \<bar>js_val (predictedPrice
        (riverside_house\<lparr>bedrooms := bedrooms riverside_house + 1\<rparr>) (1 / 2)) -
      js_val (predictedPrice riverside_house (1 / 2)) -
      1 * 15000 * dbl 1.15 * js_val (marketVariation (1 / 2))\<bar> \<le> 1 / 1000 \<and>
   \<bar>js_val (predictedPrice
        (riverside_house\<lparr>bathrooms := bathrooms riverside_house + 1\<rparr>) (1 / 2)) -
      js_val (predictedPrice riverside_house (1 / 2)) -
      1 * 20000 * dbl 1.15 * js_val (marketVariation (1 / 2))\<bar> \<le> 1 / 1000 \<and>
   \<bar>js_val (predictedPrice
        (riverside_house\<lparr>yearBuilt := yearBuilt riverside_house + 1\<rparr>) (1 / 2)) -
      js_val (predictedPrice riverside_house (1 / 2)) -
      1 * 500 * dbl 1.15 * js_val (marketVariation (1 / 2))\<bar> \<le> 1 / 1000 \<and>
   \<bar>js_val (predictedPrice
        (riverside_house\<lparr>lotSize := lotSize riverside_house + 1\<rparr>) (1 / 2)) -
      js_val (predictedPrice riverside_house (1 / 2)) -
      1 * 100000 * dbl 1.15 * js_val (marketVariation (1 / 2))\<bar> \<le> 1 / 1000 \<and>
   \<bar>js_val (predictedPrice
        (riverside_house\<lparr>garage := garage riverside_house + 1\<rparr>) (1 / 2)) -
      js_val (predictedPrice riverside_house (1 / 2)) -
      1 * 10000 * dbl 1.15 * js_val (marketVariation (1 / 2))\<bar> \<le> 1 / 1000"
  using predictedPrice_nearly_linear [of riverside_house "dbl 1.15" "1 / 2" 1]
    in_bounds_riverside neighborhoodFactor_riverside
  by simp

subsection \<open>The market variation\<close>







section \<open>Facts about the remote client\<close>

subsection \<open>The transports of the examples\<close>

lemma fixtures:
  "unreachable_host req = Rejected"
  "server_error req =
     Resolved \<lparr>status = 500, statusText = ''INTERNAL SERVER ERROR'',
       content_type = Some ''application/json'',
       parsed_body = Some (Object [(''error'', Str ''Model not loaded'')])\<rparr>"
  "html_page req =
     Resolved \<lparr>status = 200, statusText = ''OK'',
       content_type = Some ''text/html'', parsed_body = None\<rparr>"
  by (simp_all add: unreachable_host_def server_error_def html_page_def)


lemma trained_backend_predict:
  "trained_backend (predict_request d) =
     Resolved \<lparr>status = 200, statusText = ''OK'',
       content_type = Some ''application/json'',
       parsed_body = Some (Object [(''prediction'', Number (Num 612345))])\<rparr>"
  by (simp add: trained_backend_def predict_request_def)

lemma show_nat_500: "show_nat 500 = ''500''"
  by code_simp

subsection \<open>\<open>checkModelStatus\<close>\<close>

lemma checkModelStatus_never_raises: "checkModelStatus fetch \<noteq> Inl e"
  by (simp add: checkModelStatus_def split: sum.splits)

lemma checkModelStatus_rejected:
  "fetch status_request = Rejected \<Longrightarrow> checkModelStatus fetch = Inr untrained_status"
  by (simp add: checkModelStatus_def checkModelStatus_try_def)

lemma checkModelStatus_not_ok:
  "fetch status_request = Resolved resp \<Longrightarrow> \<not> response_ok resp \<Longrightarrow>
   checkModelStatus fetch = Inr untrained_status"
  by (simp add: checkModelStatus_def checkModelStatus_try_def)

lemma checkModelStatus_bad_body:
  "fetch status_request = Resolved resp \<Longrightarrow> response_ok resp \<Longrightarrow>
   parsed_body resp = None \<Longrightarrow> checkModelStatus fetch = Inr untrained_status"
  by (simp add: checkModelStatus_def checkModelStatus_try_def response_json_def)




subsection \<open>\<open>predictPriceFromAPI\<close>\<close>

lemma predictPriceFromAPI_never_raises: "predictPriceFromAPI fetch d \<noteq> Inl e"
  by (simp add: predictPriceFromAPI_def split: sum.splits)

lemma predictPriceFromAPI_rejected:
  "fetch (predict_request d) = Rejected \<Longrightarrow> predictPriceFromAPI fetch d = Inr Null"
  by (simp add: predictPriceFromAPI_def predictPriceFromAPI_try_def)

lemma predictPriceFromAPI_not_ok:
  "fetch (predict_request d) = Resolved resp \<Longrightarrow> \<not> response_ok resp \<Longrightarrow>
   predictPriceFromAPI fetch d = Inr Null"
  by (simp add: predictPriceFromAPI_def predictPriceFromAPI_try_def Let_def
      split: sum.splits)

lemma predictPriceFromAPI_bad_body:
  "fetch (predict_request d) = Resolved resp \<Longrightarrow> response_ok resp \<Longrightarrow>
   parsed_body resp = None \<Longrightarrow> predictPriceFromAPI fetch d = Inr Null"
  by (simp add: predictPriceFromAPI_def predictPriceFromAPI_try_def response_json_def)

text \<open>
  On a success status and a JSON body the result is the read of \<open>result.prediction\<close>,
  whatever it is; the read throws on the body \<open>null\<close>, and then the result is \<open>null\<close>.
\<close>

lemma predictPriceFromAPI_success:
  "fetch (predict_request d) = Resolved resp \<Longrightarrow> response_ok resp \<Longrightarrow>
   parsed_body resp = Some result \<Longrightarrow>
   predictPriceFromAPI fetch d =
     Inr (case get_prop result ''prediction'' of Inl e \<Rightarrow> Null | Inr v \<Rightarrow> v)"
  by (simp add: predictPriceFromAPI_def predictPriceFromAPI_try_def response_json_def
      split: sum.splits)

lemma predictPriceFromAPI_object:
  "fetch (predict_request d) = Resolved resp \<Longrightarrow> response_ok resp \<Longrightarrow>
   parsed_body resp = Some (Object kvs) \<Longrightarrow>
   predictPriceFromAPI fetch d =
     Inr (case map_of kvs ''prediction'' of Some v \<Rightarrow> v | None \<Rightarrow> Undefined)"
  by (simp add: predictPriceFromAPI_success)

text \<open>
  C4. \<open>predictPriceFromAPI\<close> never raises. It returns \<open>null\<close> when the status is outside
  the success range (HTTP 500, say) and when an error is thrown: \<open>fetch\<close> rejects, or the
  body is not JSON. On a success whose body is an object it returns the \<open>prediction\<close>
  property of the body as it is, a number or not, and \<open>undefined\<close> when there is none.
\<close>

theorem predictPriceFromAPI_soft:
  "predictPriceFromAPI fetch d \<noteq> Inl e \<and>
   (fetch (predict_request d) = Rejected \<longrightarrow> predictPriceFromAPI fetch d = Inr Null) \<and>
   (fetch (predict_request d) = Resolved resp \<and> \<not> response_ok resp \<longrightarrow>
      predictPriceFromAPI fetch d = Inr Null) \<and>
   (fetch (predict_request d) = Resolved resp \<and> response_ok resp \<and> parsed_body resp = None \<longrightarrow>
      predictPriceFromAPI fetch d = Inr Null) \<and>
   (fetch (predict_request d) = Resolved resp \<and> response_ok resp \<and>
    parsed_body resp = Some (Object kvs) \<longrightarrow>
      predictPriceFromAPI fetch d =
        Inr (case map_of kvs ''prediction'' of Some v \<Rightarrow> v | None \<Rightarrow> Undefined))"
  using predictPriceFromAPI_never_raises predictPriceFromAPI_rejected
    predictPriceFromAPI_not_ok predictPriceFromAPI_bad_body predictPriceFromAPI_object
  by blast

theorem predictPriceFromAPI_soft_witness:
  "server_error (predict_request example_house) =
     Resolved \<lparr>status = 500, statusText = ''INTERNAL SERVER ERROR'',
       content_type = Some ''application/json'',
       parsed_body = Some (Object [(''error'', Str ''Model not loaded'')])\<rparr> \<and>
   predictPriceFromAPI server_error example_house = Inr Null \<and>
   predictPriceFromAPI unreachable_host example_house = Inr Null \<and>
   predictPriceFromAPI html_page example_house = Inr Null \<and>
   predictPriceFromAPI trained_backend example_house = Inr (Number (Num 612345))"
  using predictPriceFromAPI_soft [of unreachable_host example_house]
    predictPriceFromAPI_soft [of server_error example_house _
      "\<lparr>status = 500, statusText = ''INTERNAL SERVER ERROR'',
        content_type = Some ''application/json'',
        parsed_body = Some (Object [(''error'', Str ''Model not loaded'')])\<rparr>"]
    predictPriceFromAPI_soft [of html_page example_house _
      "\<lparr>status = 200, statusText = ''OK'',
        content_type = Some ''text/html'', parsed_body = None\<rparr>"]
    predictPriceFromAPI_soft [of trained_backend example_house _
      "\<lparr>status = 200, statusText = ''OK'', content_type = Some ''application/json'',
        parsed_body = Some (Object [(''prediction'', Number (Num 612345))])\<rparr>"
      "[(''prediction'', Number (Num 612345))]"]
  by (simp add: fixtures trained_backend_predict response_ok_def)

subsection \<open>\<open>checkAPIHealth\<close>\<close>

lemma checkAPIHealth_never_raises: "checkAPIHealth fetch \<noteq> Inl e"
  by (simp add: checkAPIHealth_def split: sum.splits)

lemma checkAPIHealth_rejected:
  "fetch status_request = Rejected \<Longrightarrow> checkAPIHealth fetch = Inr False"
  by (simp add: checkAPIHealth_def checkAPIHealth_try_def)

lemma checkAPIHealth_resolved:
  "fetch status_request = Resolved resp \<Longrightarrow> checkAPIHealth fetch = Inr (response_ok resp)"
  by (simp add: checkAPIHealth_def checkAPIHealth_try_def)

subsection \<open>\<open>fetchWithHandling\<close>\<close>

lemma fetchWithHandling_rethrows:
  "fetchWithHandling fetch req = fetchWithHandling_try fetch req"
  by (simp add: fetchWithHandling_def split: sum.splits)

lemma fetchWithHandling_rejected:
  "fetch req = Rejected \<Longrightarrow> fetchWithHandling fetch req = Inl FetchFailed"
  by (simp add: fetchWithHandling_rethrows fetchWithHandling_try_def)

lemma fetchWithHandling_not_ok:
  "fetch req = Resolved resp \<Longrightarrow> \<not> response_ok resp \<Longrightarrow>
   \<exists>e. fetchWithHandling fetch req = Inl e"
  by (simp add: fetchWithHandling_rethrows fetchWithHandling_try_def Let_def
      split: sum.splits)

lemma fetchWithHandling_bad_body:
  "fetch req = Resolved resp \<Longrightarrow> response_ok resp \<Longrightarrow> parsed_body resp = None \<Longrightarrow>
   \<exists>e. fetchWithHandling fetch req = Inl e"
  by (simp add: fetchWithHandling_rethrows fetchWithHandling_try_def response_json_def
      split: option.splits)

lemma fetchWithHandling_returns_iff:
  "fetchWithHandling fetch req = Inr v \<longleftrightarrow>
   (\<exists>resp ct. fetch req = Resolved resp \<and> response_ok resp \<and>
      content_type resp = Some ct \<and> sublist ''application/json'' ct \<and>
      parsed_body resp = Some v)"
  by (auto simp: fetchWithHandling_rethrows fetchWithHandling_try_def response_json_def Let_def
      split: fetch_result.splits sum.splits option.splits if_splits)

lemma fetchWithHandling_500:
  "fetchWithHandling server_error status_request =
     Inl (Error (Str ''HTTP error! Status: 500''))"
  by (simp add: fetchWithHandling_rethrows fetchWithHandling_try_def server_error_def
      response_ok_def response_json_def js_or_def show_nat_500 del: show_nat.simps)

subsection \<open>Which operations raise\<close>

text \<open>
  C3, as stated, has \<open>fetchWithHandling\<close> among the operations that never raise. Its
  \<open>catch\<close> throws the error again: when the host is unreachable, \<open>fetchWithHandling\<close>
  raises the rejection of \<open>fetch\<close> to its caller.
\<close>

theorem fetchWithHandling_raises:
  "fetchWithHandling unreachable_host status_request = Inl FetchFailed"
  by (rule fetchWithHandling_rejected) (rule fixtures)

text \<open>
  C3, amended. For every transport and every record, \<open>checkModelStatus\<close>,
  \<open>predictPriceFromAPI\<close> and \<open>checkAPIHealth\<close> never raise, and each failure of the
  transport (rejection, a status that is not a success, a body that is not JSON) is
  the sentinel: the record \<open>{trained: false, modelPath: null}\<close>, \<open>null\<close>, \<open>false\<close>
  (\<open>checkAPIHealth\<close> does not read the body: it returns \<open>response.ok\<close>). The helper
  \<open>fetchWithHandling\<close> raises on each of these failures; it returns only the parsed
  body of a success response whose content type is JSON.
\<close>

theorem client_never_raises:
  "checkModelStatus fetch \<noteq> Inl e \<and> predictPriceFromAPI fetch d \<noteq> Inl e \<and>
   checkAPIHealth fetch \<noteq> Inl e \<and>
   (fetch status_request = Rejected \<longrightarrow>
      checkModelStatus fetch = Inr untrained_status \<and> checkAPIHealth fetch = Inr False) \<and>
   (fetch status_request = Resolved resp \<and>
    (\<not> response_ok resp \<or> parsed_body resp = None) \<longrightarrow>
      checkModelStatus fetch = Inr untrained_status \<and>
      checkAPIHealth fetch = Inr (response_ok resp)) \<and>
   (fetch (predict_request d) = Rejected \<longrightarrow> predictPriceFromAPI fetch d = Inr Null) \<and>
   (fetch (predict_request d) = Resolved resp \<and>
    (\<not> response_ok resp \<or> parsed_body resp = None) \<longrightarrow>
      predictPriceFromAPI fetch d = Inr Null) \<and>
   (fetch req = Rejected \<longrightarrow> fetchWithHandling fetch req = Inl FetchFailed) \<and>
   (fetch req = Resolved resp \<and> (\<not> response_ok resp \<or> parsed_body resp = None) \<longrightarrow>
      (\<exists>e'. fetchWithHandling fetch req = Inl e')) \<and>
   (fetchWithHandling fetch req = Inr v \<longleftrightarrow>
      (\<exists>resp' ct. fetch req = Resolved resp' \<and> response_ok resp' \<and>
         content_type resp' = Some ct \<and> sublist ''application/json'' ct \<and>
         parsed_body resp' = Some v))"
proof (intro conjI impI)
  show "checkModelStatus fetch \<noteq> Inl e"
    by (rule checkModelStatus_never_raises)
  show "predictPriceFromAPI fetch d \<noteq> Inl e"
    by (rule predictPriceFromAPI_never_raises)
  show "checkAPIHealth fetch \<noteq> Inl e"
    by (rule checkAPIHealth_never_raises)
  show "fetchWithHandling fetch req = Inr v \<longleftrightarrow>
      (\<exists>resp' ct. fetch req = Resolved resp' \<and> response_ok resp' \<and>
         content_type resp' = Some ct \<and> sublist ''application/json'' ct \<and>
         parsed_body resp' = Some v)"
    by (rule fetchWithHandling_returns_iff)
next
  assume "fetch status_request = Rejected"
  then show "checkModelStatus fetch = Inr untrained_status" "checkAPIHealth fetch = Inr False"
    by (simp_all add: checkModelStatus_rejected checkAPIHealth_rejected)
next
  assume a: "fetch status_request = Resolved resp \<and>
    (\<not> response_ok resp \<or> parsed_body resp = None)"
  then show "checkModelStatus fetch = Inr untrained_status"
    using checkModelStatus_not_ok checkModelStatus_bad_body
    by (cases "response_ok resp") blast+
  from a show "checkAPIHealth fetch = Inr (response_ok resp)"
    by (simp add: checkAPIHealth_resolved)
next
  assume "fetch (predict_request d) = Rejected"
  then show "predictPriceFromAPI fetch d = Inr Null"
    by (rule predictPriceFromAPI_rejected)
next
  assume "fetch (predict_request d) = Resolved resp \<and>
    (\<not> response_ok resp \<or> parsed_body resp = None)"
  then show "predictPriceFromAPI fetch d = Inr Null"
    using predictPriceFromAPI_not_ok predictPriceFromAPI_bad_body
    by (cases "response_ok resp") blast+
next
  assume "fetch req = Rejected"
  then show "fetchWithHandling fetch req = Inl FetchFailed"
    by (rule fetchWithHandling_rejected)
next
  assume "fetch req = Resolved resp \<and> (\<not> response_ok resp \<or> parsed_body resp = None)"
  then show "\<exists>e'. fetchWithHandling fetch req = Inl e'"
    using fetchWithHandling_not_ok fetchWithHandling_bad_body
    by (cases "response_ok resp") blast+
qed

theorem client_never_raises_witness:
  "unreachable_host status_request = Rejected \<and>
   unreachable_host (predict_request example_house) = Rejected \<and>
   checkModelStatus unreachable_host = Inr untrained_status \<and>
   checkAPIHealth unreachable_host = Inr False \<and>
   predictPriceFromAPI unreachable_host example_house = Inr Null \<and>
   fetchWithHandling unreachable_host status_request = Inl FetchFailed \<and>
   checkModelStatus server_error = Inr untrained_status \<and>
   checkAPIHealth server_error = Inr False \<and>
   predictPriceFromAPI server_error example_house = Inr Null \<and>
   (\<exists>e'. fetchWithHandling server_error status_request = Inl e')"
  using client_never_raises [of unreachable_host _ example_house _ status_request]
    client_never_raises [of server_error _ example_house
      "\<lparr>status = 500, statusText = ''INTERNAL SERVER ERROR'',
        content_type = Some ''application/json'',
        parsed_body = Some (Object [(''error'', Str ''Model not loaded'')])\<rparr>" status_request]
  by (simp add: fixtures response_ok_def)

section \<open>Facts about the caller\<close>

text \<open>
  C2. The fallback policy of \<open>handleFormSubmit\<close>, for every record, every draw and
  every remote operation \<open>api\<close>. The code's tag \<open>'API'\<close> is the specification's
  \<open>remote\<close> and \<open>'fallback'\<close> is its \<open>local\<close>. When \<open>isAvailable\<close> is \<open>false\<close> the remote
  operation is not invoked and the result is the local estimate, tagged \<open>'fallback'\<close>.
  When it is \<open>true\<close> and the remote operation returns a number, that number is the
  result, tagged \<open>'API'\<close>, and the local estimate is not computed. When it is \<open>true\<close> and
  the remote operation returns \<open>null\<close> or throws, the result is the local estimate,
  tagged \<open>'fallback'\<close>. In every call the tag is one of the two, it is \<open>'API'\<close> exactly
  when the local estimate is not computed, and the remote operation is invoked
  exactly when \<open>isAvailable\<close> is truthy.
\<close>

theorem handleFormSubmit_fallback:
  "handleFormSubmit_with api (Bool False) d r =
     \<lparr>result_price = Number (predictPrice d r), result_source = ''fallback'',
      toast_title = ''Fallback Prediction'', invoked = [PredictPrice]\<rparr> \<and>
   (api d = Inr (Number n) \<longrightarrow>
      handleFormSubmit_with api (Bool True) d r =
        \<lparr>result_price = Number n, result_source = ''API'',
         toast_title = ''ML Model Prediction'', invoked = [PredictPriceFromAPI]\<rparr>) \<and>
   (api d = Inr Null \<or> api d = Inl e \<longrightarrow>
      handleFormSubmit_with api (Bool True) d r =
        \<lparr>result_price = Number (predictPrice d r), result_source = ''fallback'',
         toast_title = ''Fallback Prediction'',
         invoked = [PredictPriceFromAPI, PredictPrice]\<rparr>) \<and>
   (result_source (handleFormSubmit_with api a d r) = ''API'' \<or>
    result_source (handleFormSubmit_with api a d r) = ''fallback'') \<and>
   (result_source (handleFormSubmit_with api a d r) = ''API'' \<longleftrightarrow>
      PredictPrice \<notin> set (invoked (handleFormSubmit_with api a d r))) \<and>
   (PredictPriceFromAPI \<in> set (invoked (handleFormSubmit_with api a d r)) \<longleftrightarrow> truthy a)"
  by (auto simp: handleFormSubmit_with_def split: sum.splits)

theorem handleFormSubmit_fallback_witness:
  "predictPriceFromAPI trained_backend example_house = Inr (Number (Num 612345)) \<and>
   handleFormSubmit trained_backend (Bool True) example_house (1 / 2) =
     \<lparr>result_price = Number (Num 612345), result_source = ''API'',
      toast_title = ''ML Model Prediction'', invoked = [PredictPriceFromAPI]\<rparr> \<and>
   predictPriceFromAPI unreachable_host example_house = Inr Null \<and>
   handleFormSubmit unreachable_host (Bool True) example_house (1 / 2) =
     \<lparr>result_price = Number (Num 585000), result_source = ''fallback'',
      toast_title = ''Fallback Prediction'',
      invoked = [PredictPriceFromAPI, PredictPrice]\<rparr>"
proof -
  have t: "predictPriceFromAPI trained_backend example_house = Inr (Number (Num 612345))"
    by (simp add: predictPriceFromAPI_object [where fetch = trained_backend,
          OF trained_backend_predict] response_ok_def)
  have u: "predictPriceFromAPI unreachable_host example_house = Inr Null"
    by (simp add: predictPriceFromAPI_rejected fixtures)
  show ?thesis
    using handleFormSubmit_fallback [of "predictPriceFromAPI trained_backend" example_house
        "1 / 2" "Num 612345"]
      handleFormSubmit_fallback [of "predictPriceFromAPI unreachable_host" example_house
        "1 / 2"]
    by (simp add: t u handleFormSubmit_def example_draws)
qed

section \<open>Facts about \<open>formatPrice\<close>\<close>









end
